theory Spec2Isabelle
  imports Main "HOL-Library.AList" "HOL-Library.Sublist"
begin

section \<open>JavaScript values\<close>

text \<open>
  The component \<^verbatim>\<open>JsonSchemaFormComponent\<close> (json-schema-form.component.ts) works on
  untyped JavaScript values: its inputs are declared \<^verbatim>\<open>any\<close>. The values that matter
  are the JSON ones and \<^verbatim>\<open>undefined\<close> (an input that was not supplied). An object is
  a list of key/value pairs in insertion order; \<open>map_of\<close> reads a key, \<open>AList.update\<close>
  writes one (an existing key keeps its position, a new key goes last, as in JavaScript).
  Values are immutable here: where the source mutates an object in place, the model
  returns the new value and stores it back where the source reads it again. The inputs
  of the component are read as the caller supplies them at each call: that the schema
  object handed in is the object which lines 200 and 233 change is not tracked.
\<close>

datatype json =
    JUndef
  | JNull
  | JBool bool
  | JNum int
  | JStr string
  | JArr "json list"
  | JObj "(string \<times> json) list"

text \<open>JavaScript truthiness (\<^verbatim>\<open>if (x)\<close>, \<^verbatim>\<open>!x\<close>, \<^verbatim>\<open>x || y\<close>, \<^verbatim>\<open>x && y\<close>).\<close>

fun truthy :: "json \<Rightarrow> bool" where
  "truthy JUndef = False"
| "truthy JNull = False"
| "truthy (JBool b) = b"
| "truthy (JNum n) = (n \<noteq> 0)"
| "truthy (JStr s) = (s \<noteq> [])"
| "truthy (JArr xs) = True"
| "truthy (JObj kvs) = True"

text \<open>\<^verbatim>\<open>a || b\<close> yields the first operand when it is truthy, the second otherwise.\<close>

definition js_or :: "json \<Rightarrow> json \<Rightarrow> json" where
  "js_or a b = (if truthy a then a else b)"

text \<open>
  Property read \<^verbatim>\<open>x.k\<close> / \<^verbatim>\<open>x[k]\<close> for a key that is neither an index nor
  \<^verbatim>\<open>length\<close>: the stored value on an object, \<^verbatim>\<open>undefined\<close> on everything else.
  (On \<^verbatim>\<open>undefined\<close> and \<^verbatim>\<open>null\<close> JavaScript throws; every read in the component is
  guarded by \<^verbatim>\<open>isObject\<close>, \<^verbatim>\<open>hasOwn\<close> or a truthiness test, so that case is never
  reached.)
\<close>

fun js_get :: "json \<Rightarrow> string \<Rightarrow> json" where
  "js_get (JObj kvs) k = (case map_of kvs k of Some v \<Rightarrow> v | None \<Rightarrow> JUndef)"
| "js_get v k = JUndef"

text \<open>Property write \<^verbatim>\<open>x[k] = v\<close> and \<^verbatim>\<open>delete x[k]\<close> on an object.\<close>

fun js_put :: "json \<Rightarrow> string \<Rightarrow> json \<Rightarrow> json" where
  "js_put (JObj kvs) k v = JObj (AList.update k v kvs)"
| "js_put x k v = x"

fun js_delete :: "json \<Rightarrow> string \<Rightarrow> json" where
  "js_delete (JObj kvs) k = JObj (AList.delete k kvs)"
| "js_delete x k = x"

text \<open>\<^verbatim>\<open>Array.prototype.indexOf\<close> compares with \<^verbatim>\<open>===\<close>; only its \<^verbatim>\<open>-1\<close> test is used.\<close>

definition indexOf_is_minus1 :: "json list \<Rightarrow> json \<Rightarrow> bool" where
  "indexOf_is_minus1 xs x = (x \<notin> set xs)"

section \<open>Type tests of the utility library\<close>

text \<open>
  Modelled from the spec: \<^verbatim>\<open>isObject\<close>, \<^verbatim>\<open>isArray\<close>, \<^verbatim>\<open>isString\<close>, \<^verbatim>\<open>hasOwn\<close>,
  \<^verbatim>\<open>isEmpty\<close> and \<^verbatim>\<open>hasValue\<close> are imported from \<^verbatim>\<open>./utilities/index\<close>, which is not
  among the sources. They are modelled by what their names and the spec say: an object is
  a plain (non-array) object; \<open>hasOwn\<close> asks for an own key of an object; a schema or
  data object is empty when it has no keys; a value is present unless it is
  \<^verbatim>\<open>undefined\<close>, \<^verbatim>\<open>null\<close> or the empty string.
\<close>

fun isObject :: "json \<Rightarrow> bool" where
  "isObject (JObj kvs) = True"
| "isObject v = False"

fun isArray :: "json \<Rightarrow> bool" where
  "isArray (JArr xs) = True"
| "isArray v = False"

fun isString :: "json \<Rightarrow> bool" where
  "isString (JStr s) = True"
| "isString v = False"

fun hasOwn :: "json \<Rightarrow> string \<Rightarrow> bool" where
  "hasOwn (JObj kvs) k = (map_of kvs k \<noteq> None)"
| "hasOwn v k = False"

fun isEmpty :: "json \<Rightarrow> bool" where
  "isEmpty (JObj kvs) = (kvs = [])"
| "isEmpty (JArr xs) = (xs = [])"
| "isEmpty v = False"

fun hasValue :: "json \<Rightarrow> bool" where
  "hasValue JUndef = False"
| "hasValue JNull = False"
| "hasValue (JStr s) = (s \<noteq> [])"
| "hasValue v = True"

section \<open>Library calls with a fixed meaning\<close>

datatype error = TypeError | Unmodelled

text \<open>
  \<^verbatim>\<open>_.cloneDeep\<close> returns a structurally equal copy; on immutable values that is the
  value itself.
\<close>

definition cloneDeep :: "json \<Rightarrow> json" where
  "cloneDeep v = v"

text \<open>
  \<^verbatim>\<open>Object.assign(target, source)\<close> writes every own key of the source into the target,
  in the source's order, and returns the target. It throws a TypeError on an
  \<^verbatim>\<open>undefined\<close> or \<^verbatim>\<open>null\<close> target. A primitive or array target is boxed by
  JavaScript into a value that is not JSON, and a string or array source has index
  keys: the model reports both as \<open>Unmodelled\<close>. Any other source that is not an
  object has no own keys to copy. In the component the source is always an object, the
  node that bears a \<^verbatim>\<open>$ref\<close>.
\<close>

definition assign_keys :: "(string \<times> json) list \<Rightarrow> (string \<times> json) list \<Rightarrow> (string \<times> json) list" where
  "assign_keys target source = fold (\<lambda>kv acc. AList.update (fst kv) (snd kv) acc) source target"

fun Object_assign :: "json \<Rightarrow> json \<Rightarrow> error + json" where
  "Object_assign JUndef src = Inl TypeError"
| "Object_assign JNull src = Inl TypeError"
| "Object_assign (JObj t) (JObj s) = Inr (JObj (assign_keys t s))"
| "Object_assign (JObj t) (JStr s) = Inl Unmodelled"
| "Object_assign (JObj t) (JArr xs) = Inl Unmodelled"
| "Object_assign (JObj t) src = Inr (JObj t)"
| "Object_assign tgt src = Inl Unmodelled"

text \<open>
  \<^verbatim>\<open>String.prototype.replace\<close> with a global literal pattern: every occurrence, left to
  right, without rescanning the replacement. The pattern is never empty.
\<close>

fun replaceAll :: "string \<Rightarrow> string \<Rightarrow> string \<Rightarrow> string" where
  "replaceAll pat rep [] = []"
| "replaceAll pat rep (c # cs) =
     (if pat \<noteq> [] \<and> prefix pat (c # cs)
      then rep @ replaceAll pat rep (drop (length pat - 1) cs)
      else c # replaceAll pat rep cs)"

text \<open>\<^verbatim>\<open>xs.slice(0, -2)\<close>: all but the last two elements.\<close>

definition slice_0_minus2 :: "'a list \<Rightarrow> 'a list" where
  "slice_0_minus2 xs = take (length xs - 2) xs"

section \<open>JSON Pointers\<close>

text \<open>
  The \<^verbatim>\<open>JsonPointer\<close> functions accept a pointer either as a string or as an array of
  keys; the component passes both.
\<close>

datatype pointer = PStr string | PArr "string list"

text \<open>
  Modelled from the spec: \<^verbatim>\<open>JsonPointer.isSubPointer\<close> is not among the sources. The
  spec: a reference is circular iff its target pointer is a prefix (ancestor) of the
  pointer where the reference appears, or equal to it; a JSON Pointer is a path string
  such as \<^verbatim>\<open>/properties/name\<close>, and the root is the empty path. \<open>tokens\<close> splits a
  path string into its keys.
\<close>

fun splitOn :: "char \<Rightarrow> string \<Rightarrow> string \<Rightarrow> string list" where
  "splitOn d acc [] = [rev acc]"
| "splitOn d acc (c # cs) = (if c = d then rev acc # splitOn d [] cs else splitOn d (c # acc) cs)"

fun tokens :: "string \<Rightarrow> string list" where
  "tokens [] = []"
| "tokens (c # cs) = (if c = CHR ''/'' then splitOn CHR ''/'' [] cs else splitOn CHR ''/'' [] (c # cs))"

definition isSubPointer :: "string \<Rightarrow> string \<Rightarrow> bool" where
  "isSubPointer shortPointer longPointer = prefix (tokens shortPointer) (tokens longPointer)"

section \<open>State of the component and of its service\<close>

text \<open>
  A compiled validator is the closure that \<^verbatim>\<open>ajv.compile(schema)\<close> returns; it is
  identified by the schema it was compiled from. Ajv is an external library: the model
  assumes that it accepts the schema it is given.
\<close>

datatype validator = Validator json

text \<open>The four outputs of the component, in the order their values are emitted.\<close>

datatype event =
    OnChanges json
  | OnSubmit json
  | IsValid bool
  | ValidationErrors json

text \<open>
  The fields of \<^verbatim>\<open>JsonSchemaFormService\<close> that the component reads or writes
  (\<^verbatim>\<open>this.jsf.schema\<close> is \<open>jsf_schema\<close>, and so on), with the maps that
  \<^verbatim>\<open>formatFormData\<close> is given. \<^verbatim>\<open>formGroup\<close> is \<open>JNull\<close> for \<^verbatim>\<open>null\<close>.
  \<^verbatim>\<open>schemaRefLibrary\<close> is always an object, keyed by pointer; the field holds its
  key/value pairs.
\<close>

record jsf_service =
  jsf_schema :: json
  jsf_layout :: json
  initialValues :: json
  dataMap :: "(string \<times> json) list"
  schemaRefLibrary :: "(string \<times> json) list"
  layoutRefLibrary :: json
  formGroupTemplate :: json
  formGroup :: json
  globalOptions :: json
  jsf_framework :: json
  tpldata :: json
  AngularSchemaFormCompatibility :: bool
  ReactJsonSchemaFormCompatibility :: bool
  JsonFormCompatibility :: bool
  schemaCircularRefMap :: "(string \<times> string) list"
  dataCircularRefMap :: "(string \<times> string) list"
  arrayMap :: "(string \<times> json) list"

text \<open>
  The component: its private fields, its inputs, the service it is given, the two
  settings it passes to the framework library, and the values emitted so far.
  \<open>ajv_compiled\<close> lists the schemas handed to \<^verbatim>\<open>ajv.compile\<close>, oldest first.
\<close>

record component =
  formInitialized :: bool
  validateFormData :: "validator option"
  ajv_compiled :: "json list"
  schema :: json
  layout :: json
  data :: json
  options :: json
  form :: json
  model :: json
  JSONSchema :: json
  UISchema :: json
  formData :: json
  framework :: json
  loadExternalAssets :: json
  debug :: json
  jsf :: jsf_service
  fl_loadExternalAssets :: json
  fl_framework :: json
  emitted :: "event list"

section \<open>The utilities that are not among the sources\<close>

text \<open>
  \<^verbatim>\<open>initializeForm\<close> calls functions of \<^verbatim>\<open>./utilities/index\<close>, of the service and of
  the framework library whose code is not among the sources. They are parameters of the
  model: each is a function of the arguments the call passes and of the service fields
  its name says it works on. A function that is handed the whole service
  (\<^verbatim>\<open>buildFormGroupTemplate\<close>, \<^verbatim>\<open>buildLayout\<close>) returns the service as it leaves it.
  \<^verbatim>\<open>JsonPointer.forEachDeep(object, fn, flag)\<close> is given the callback as a step on
  the service and returns the service after all the calls it makes; a step that throws
  ends the traversal. \<^verbatim>\<open>JsonPointer.set\<close> changes the object it is given and returns
  it: line 234 uses the result, line 313 the change, and the model has one value for
  both. \<open>formGroup_value\<close> is the \<^verbatim>\<open>value\<close> of a form group, and \<open>ajv_validate\<close> the
  verdict and the error list of the validator compiled from a schema, on some data.
\<close>

record utils =
  setOptions :: "json \<Rightarrow> json \<Rightarrow> json"
  setTpldata :: "json \<Rightarrow> json \<Rightarrow> json"
  getFramework :: "json \<Rightarrow> json \<Rightarrow> json"
  convertJsonSchema3to4 :: "json \<Rightarrow> json"
  JsonPointer_compile :: "string \<Rightarrow> string"
  JsonPointer_parse :: "string \<Rightarrow> string list"
  JsonPointer_toKey :: "string \<Rightarrow> string"
  JsonPointer_has :: "json \<Rightarrow> pointer \<Rightarrow> bool"
  JsonPointer_set :: "json \<Rightarrow> pointer \<Rightarrow> json \<Rightarrow> json"
  forEachDeep :: "json \<Rightarrow> (json \<Rightarrow> string \<Rightarrow> jsf_service \<Rightarrow> error + jsf_service)
                    \<Rightarrow> bool \<Rightarrow> jsf_service \<Rightarrow> error + jsf_service"
  getSchemaReference :: "json \<Rightarrow> string \<Rightarrow> json \<Rightarrow> json"
  fixJsonFormOptions :: "json \<Rightarrow> json"
  buildSchemaFromLayout :: "json \<Rightarrow> json"
  buildSchemaFromData :: "json \<Rightarrow> json"
  buildFormGroupTemplate :: "jsf_service \<Rightarrow> json \<Rightarrow> bool \<Rightarrow> json \<times> jsf_service"
  buildLayout :: "jsf_service \<Rightarrow> json \<times> jsf_service"
  buildFormGroup :: "json \<Rightarrow> json"
  formGroup_value :: "json \<Rightarrow> json"
  formatFormData :: "json \<Rightarrow> (string \<times> json) list \<Rightarrow> (string \<times> string) list
                       \<Rightarrow> (string \<times> json) list \<Rightarrow> bool \<Rightarrow> json"
  ajv_validate :: "json \<Rightarrow> json \<Rightarrow> bool \<times> json"

section \<open>\<^verbatim>\<open>initializeForm\<close>, section by section\<close>

text \<open>A throwing step ends the function; \<open>then_do\<close> passes the error on.\<close>

definition then_do :: "error + 'a \<Rightarrow> ('a \<Rightarrow> error + 'b) \<Rightarrow> error + 'b" where
  "then_do r f = (case r of Inl e \<Rightarrow> Inl e | Inr x \<Rightarrow> f x)"

text \<open>
  Lines 132-135: the body runs only if one of \<^verbatim>\<open>schema\<close>, \<^verbatim>\<open>layout\<close>, \<^verbatim>\<open>data\<close>,
  \<^verbatim>\<open>form\<close>, \<^verbatim>\<open>JSONSchema\<close>, \<^verbatim>\<open>UISchema\<close> is truthy.
\<close>

definition inputs_present :: "component \<Rightarrow> bool" where
  "inputs_present c =
     (truthy (schema c) \<or> truthy (layout c) \<or> truthy (data c) \<or>
      truthy (form c) \<or> truthy (JSONSchema c) \<or> truthy (UISchema c))"

text \<open>Lines 136-144: the fields that are reset.\<close>

definition resetEngine :: "component \<Rightarrow> component" where
  "resetEngine c =
     c\<lparr>formInitialized := False,
       jsf := (jsf c)\<lparr>jsf_schema := JObj [], jsf_layout := JArr [], initialValues := JObj [],
                      dataMap := [], schemaRefLibrary := [], layoutRefLibrary := JObj [],
                      formGroupTemplate := JObj [], formGroup := JNull\<rparr>\<rparr>"

text \<open>Lines 150-168: global options, framework, template data.\<close>

definition initOptions :: "utils \<Rightarrow> component \<Rightarrow> component" where
  "initOptions U c =
     (let g0 = setOptions U (globalOptions (jsf c)) (JObj [(''debug'', JBool (truthy (debug c)))]);
          lea0 = js_or (loadExternalAssets c) (JBool False);
          fw0 = js_or (framework c) JNull;
          useOpts = isObject (options c);
          g1 = (if useOpts then setOptions U g0 (options c) else g0);
          lea1 = (if useOpts then js_or (js_get (options c) ''loadExternalAssets'') lea0 else lea0);
          fw1 = (if useOpts then js_or (js_get (options c) ''framework'') fw0 else fw0);
          fo = js_get (form c) ''options'';
          useForm = (isObject (form c) \<and> isObject fo);
          g2 = (if useForm then setOptions U g1 fo else g1);
          lea2 = (if useForm then js_or (js_get fo ''loadExternalAssets'') lea1 else lea1);
          fw2 = (if useForm then js_or (js_get fo ''framework'') fw1 else fw1);
          ft = js_get (form c) ''tpldata'';
          t = (if isObject (form c) \<and> isObject ft then setTpldata U (tpldata (jsf c)) ft
               else tpldata (jsf c))
      in c\<lparr>fl_loadExternalAssets := lea2, fl_framework := fw2,
           jsf := (jsf c)\<lparr>globalOptions := g2, jsf_framework := getFramework U lea2 fw2,
                          tpldata := t\<rparr>\<rparr>)"

text \<open>Lines 178-191: the schema, from the first input that is an object.\<close>

definition initSchema :: "component \<Rightarrow> component" where
  "initSchema c =
     (if isObject (schema c) then
        c\<lparr>jsf := (jsf c)\<lparr>AngularSchemaFormCompatibility := True, jsf_schema := schema c\<rparr>\<rparr>
      else if hasOwn (form c) ''schema'' \<and> isObject (js_get (form c) ''schema'') then
        c\<lparr>jsf := (jsf c)\<lparr>jsf_schema := js_get (form c) ''schema''\<rparr>\<rparr>
      else if isObject (JSONSchema c) then
        c\<lparr>jsf := (jsf c)\<lparr>ReactJsonSchemaFormCompatibility := True, jsf_schema := JSONSchema c\<rparr>\<rparr>
      else if hasOwn (form c) ''JSONSchema'' \<and> isObject (js_get (form c) ''JSONSchema'') then
        c\<lparr>jsf := (jsf c)\<lparr>ReactJsonSchemaFormCompatibility := True,
                         jsf_schema := js_get (form c) ''JSONSchema''\<rparr>\<rparr>
      else if hasOwn (form c) ''properties'' \<and> isObject (js_get (form c) ''properties'') then
        c\<lparr>jsf := (jsf c)\<lparr>jsf_schema := form c\<rparr>\<rparr>
      else c)"

text \<open>The canonical schema: what lines 137 and 178-191 leave in \<^verbatim>\<open>this.jsf.schema\<close>.\<close>

definition canonicalSchema :: "component \<Rightarrow> json" where
  "canonicalSchema c = jsf_schema (jsf (initSchema (resetEngine c)))"

text \<open>
  Lines 195-209, inside \<^verbatim>\<open>if (!isEmpty(this.jsf.schema))\<close>: the JSON Form shorthand.
  The first branch writes the key \<^verbatim>\<open>type\<close> into the schema object itself; the second
  builds a new object around it.
\<close>

definition normalizeSchema :: "jsf_service \<Rightarrow> jsf_service" where
  "normalizeSchema j =
     (let s = jsf_schema j in
      if \<not> hasOwn s ''type'' \<and> hasOwn s ''properties'' \<and> isObject (js_get s ''properties'') then
        j\<lparr>jsf_schema := js_put s ''type'' (JStr ''object'')\<rparr>
      else if \<not> hasOwn s ''type'' \<or> js_get s ''type'' \<noteq> JStr ''object'' \<or>
              \<not> hasOwn s ''properties'' then
        j\<lparr>JsonFormCompatibility := True,
          jsf_schema := JObj [(''type'', JStr ''object''), (''properties'', s)]\<rparr>
      else j)"

text \<open>
  Lines 219-243: the callback that \<^verbatim>\<open>forEachDeep\<close> runs on every value of the schema
  with the pointer of that value. \<^verbatim>\<open>delete value['$ref']\<close> changes the node before it
  is merged over the copy of the library entry; \<^verbatim>\<open>JsonPointer.set\<close> then puts the
  merged object where the node was, so the node without its \<^verbatim>\<open>$ref\<close> is seen only
  through the merged object. \<open>cacheReference\<close> is lines 222-228: the target is
  resolved and stored in the library unless it is there already.
\<close>

definition cacheReference :: "utils \<Rightarrow> string \<Rightarrow> jsf_service \<Rightarrow> jsf_service" where
  "cacheReference U newReference j =
     (if hasValue (JStr newReference) \<and> \<not> hasOwn (JObj (schemaRefLibrary j)) newReference
      then j\<lparr>schemaRefLibrary :=
               AList.update newReference
                 (getSchemaReference U (jsf_schema j) newReference (JObj (schemaRefLibrary j)))
                 (schemaRefLibrary j)\<rparr>
      else j)"

definition resolveRef :: "utils \<Rightarrow> json \<Rightarrow> string \<Rightarrow> jsf_service \<Rightarrow> error + jsf_service" where
  "resolveRef U value pointer j =
     (case js_get value ''$ref'' of
        JStr ref \<Rightarrow>
          if hasOwn value ''$ref'' then
            (let newReference = JsonPointer_compile U ref;
                 isCircular = isSubPointer newReference pointer;
                 j1 = cacheReference U newReference j
             in if \<not> isCircular then
                  then_do (Object_assign
                             (cloneDeep (js_get (JObj (schemaRefLibrary j1)) newReference))
                             (js_delete value ''$ref''))
                    (\<lambda>merged. Inr (j1\<lparr>jsf_schema :=
                                         JsonPointer_set U (jsf_schema j1) (PStr pointer) merged\<rparr>))
                else
                  Inr (j1\<lparr>schemaCircularRefMap :=
                            AList.update pointer newReference (schemaCircularRefMap j1)\<rparr>))
          else Inr j
      | _ \<Rightarrow> Inr j)"

text \<open>
  Lines 193-245: shorthand, conversion of a version 3 schema, compilation of the
  validator, then the traversal that resolves references.
\<close>

definition compileSchema :: "component \<Rightarrow> component" where
  "compileSchema c =
     c\<lparr>validateFormData := Some (Validator (jsf_schema (jsf c))),
       ajv_compiled := ajv_compiled c @ [jsf_schema (jsf c)]\<rparr>"

definition prepareSchema :: "utils \<Rightarrow> component \<Rightarrow> component" where
  "prepareSchema U c =
     (let j1 = normalizeSchema (jsf c);
          j2 = j1\<lparr>jsf_schema := convertJsonSchema3to4 U (jsf_schema j1)\<rparr>
      in compileSchema (c\<lparr>jsf := j2\<rparr>))"

text \<open>The schema that line 215 hands to \<^verbatim>\<open>ajv.compile\<close>, as a function of the inputs.\<close>

definition compiledSchema :: "utils \<Rightarrow> component \<Rightarrow> json" where
  "compiledSchema U c =
     convertJsonSchema3to4 U (jsf_schema (normalizeSchema (jsf (initSchema (resetEngine c)))))"

definition resolveSchema :: "utils \<Rightarrow> component \<Rightarrow> error + component" where
  "resolveSchema U c =
     (if \<not> isEmpty (jsf_schema (jsf c)) then
        (let c1 = prepareSchema U c in
         then_do (forEachDeep U (jsf_schema (jsf c1)) (resolveRef U) True (jsf c1))
           (\<lambda>j. Inr (c1\<lparr>jsf := j\<rparr>)))
      else Inr c)"

text \<open>
  Lines 254-267: the layout, from the first input that is an array.
  \<^verbatim>\<open>fixJsonFormOptions(this.form.form)\<close> works in place on the array inside the
  \<^verbatim>\<open>form\<close> input, and the layout is read from \<^verbatim>\<open>this.form.form\<close> afterwards: the
  model writes the fixed array back into \<open>form\<close>.
\<close>

definition defaultLayout :: json where
  "defaultLayout =
     JArr [JStr ''*'', JObj [(''type'', JStr ''submit''), (''title'', JStr ''Submit'')]]"

definition initLayout :: "utils \<Rightarrow> component \<Rightarrow> component" where
  "initLayout U c =
     (if isArray (layout c) then
        c\<lparr>jsf := (jsf c)\<lparr>jsf_layout := layout c\<rparr>\<rparr>
      else if isArray (form c) then
        c\<lparr>jsf := (jsf c)\<lparr>AngularSchemaFormCompatibility := True, jsf_layout := form c\<rparr>\<rparr>
      else if truthy (form c) \<and> isArray (js_get (form c) ''form'') then
        (let form' = js_put (form c) ''form'' (fixJsonFormOptions U (js_get (form c) ''form''))
         in c\<lparr>form := form',
              jsf := (jsf c)\<lparr>JsonFormCompatibility := True, jsf_layout := js_get form' ''form''\<rparr>\<rparr>)
      else if truthy (form c) \<and> isArray (js_get (form c) ''layout'') then
        c\<lparr>jsf := (jsf c)\<lparr>jsf_layout := js_get (form c) ''layout''\<rparr>\<rparr>
      else
        c\<lparr>jsf := (jsf c)\<lparr>jsf_layout := defaultLayout\<rparr>\<rparr>)"

text \<open>
  Lines 276-287: the alternate layout (\<open>JNull\<close> when there is none), with the flags and
  the in-place fix of \<^verbatim>\<open>form.customFormItems\<close>.
\<close>

definition selectAlternateLayout :: "utils \<Rightarrow> component \<Rightarrow> component \<times> json" where
  "selectAlternateLayout U c =
     (if isObject (UISchema c) then
        (c\<lparr>jsf := (jsf c)\<lparr>ReactJsonSchemaFormCompatibility := True\<rparr>\<rparr>, UISchema c)
      else if hasOwn (form c) ''UISchema'' then
        (c\<lparr>jsf := (jsf c)\<lparr>ReactJsonSchemaFormCompatibility := True\<rparr>\<rparr>, js_get (form c) ''UISchema'')
      else if hasOwn (form c) ''customFormItems'' then
        (let form' = js_put (form c) ''customFormItems''
                       (fixJsonFormOptions U (js_get (form c) ''customFormItems''))
         in (c\<lparr>form := form', jsf := (jsf c)\<lparr>JsonFormCompatibility := True\<rparr>\<rparr>,
             js_get form' ''customFormItems''))
      else (c, JNull))"

text \<open>
  Lines 292-315: the callback run on every value of the alternate layout.
  Line 292-294 turn the pointer of the hint into a schema pointer.
\<close>

definition toSchemaPointer :: "string \<Rightarrow> string" where
  "toSchemaPointer pointer =
     replaceAll ''/properties/titleMap/properties/'' ''/titleMap/properties/''
       (replaceAll ''/properties/items/properties/'' ''/items/properties/''
          (replaceAll ''/'' ''/properties/'' pointer))"

definition hintKey :: "string \<Rightarrow> string" where
  "hintKey key = (if take 3 key = ''ui:'' then drop 3 key else key)"

definition hintItemPointer :: "utils \<Rightarrow> string \<Rightarrow> pointer" where
  "hintItemPointer U schemaPointer =
     (let groupPointer = slice_0_minus2 (JsonPointer_parse U schemaPointer);
          key = JsonPointer_toKey U schemaPointer
      in if key = ''ui:order'' then PStr schemaPointer
         else PArr (groupPointer @ [''x-schema-form'', hintKey key]))"

definition importHint :: "utils \<Rightarrow> json \<Rightarrow> string \<Rightarrow> jsf_service \<Rightarrow> jsf_service" where
  "importHint U value pointer j =
     (let schemaPointer = toSchemaPointer pointer in
      if hasValue value \<and> hasValue (JStr pointer) then
        (let groupPointer = slice_0_minus2 (JsonPointer_parse U schemaPointer);
             itemPointer = hintItemPointer U schemaPointer
         in if JsonPointer_has U (jsf_schema j) (PArr groupPointer) \<and>
               \<not> JsonPointer_has U (jsf_schema j) itemPointer
            then j\<lparr>jsf_schema := JsonPointer_set U (jsf_schema j) itemPointer value\<rparr>
            else j)
      else j)"

definition importAlternateLayout :: "utils \<Rightarrow> component \<Rightarrow> error + component" where
  "importAlternateLayout U c =
     (case selectAlternateLayout U c of
        (c1, alternateLayout) \<Rightarrow>
          if truthy alternateLayout then
            then_do (forEachDeep U alternateLayout (\<lambda>v p j. Inr (importHint U v p j)) False (jsf c1))
              (\<lambda>j. Inr (c1\<lparr>jsf := j\<rparr>))
          else Inr c1)"

text \<open>Lines 328-344: the initial values, from the first input that is an object.\<close>

definition initValues :: "component \<Rightarrow> component" where
  "initValues c =
     (if isObject (data c) then
        c\<lparr>jsf := (jsf c)\<lparr>initialValues := data c\<rparr>\<rparr>
      else if isObject (model c) then
        c\<lparr>jsf := (jsf c)\<lparr>AngularSchemaFormCompatibility := True, initialValues := model c\<rparr>\<rparr>
      else if isObject (form c) \<and> isObject (js_get (form c) ''value'') then
        c\<lparr>jsf := (jsf c)\<lparr>JsonFormCompatibility := True,
                         initialValues := js_get (form c) ''value''\<rparr>\<rparr>
      else if isObject (form c) \<and> isObject (js_get (form c) ''data'') then
        c\<lparr>jsf := (jsf c)\<lparr>initialValues := js_get (form c) ''data''\<rparr>\<rparr>
      else if isObject (formData c) then
        c\<lparr>jsf := (jsf c)\<lparr>ReactJsonSchemaFormCompatibility := True, initialValues := formData c\<rparr>\<rparr>
      else if hasOwn (form c) ''formData'' \<and> isObject (js_get (form c) ''formData'') then
        c\<lparr>jsf := (jsf c)\<lparr>ReactJsonSchemaFormCompatibility := True,
                         initialValues := js_get (form c) ''formData''\<rparr>\<rparr>
      else c)"

text \<open>
  Lines 346-356: a schema for a form that has none. \<^verbatim>\<open>this.jsf.layout.indexOf('*')\<close>
  looks at the entries of the layout array (at the characters of a string); any other
  value has no \<^verbatim>\<open>indexOf\<close> and the call throws.
\<close>

fun layout_lacks_wildcard :: "json \<Rightarrow> error + bool" where
  "layout_lacks_wildcard (JArr xs) = Inr (indexOf_is_minus1 xs (JStr ''*''))"
| "layout_lacks_wildcard (JStr s) = Inr (CHR ''*'' \<notin> set s)"
| "layout_lacks_wildcard v = Inl TypeError"

definition synthesizeSchema :: "utils \<Rightarrow> jsf_service \<Rightarrow> error + jsf_service" where
  "synthesizeSchema U j =
     (if isEmpty (jsf_schema j) then
        then_do (layout_lacks_wildcard (jsf_layout j))
          (\<lambda>noWildcard.
             if noWildcard then
               Inr (j\<lparr>jsf_schema := buildSchemaFromLayout U (jsf_layout j)\<rparr>)
             else if \<not> isEmpty (initialValues j) then
               Inr (j\<lparr>jsf_schema := buildSchemaFromData U (initialValues j)\<rparr>)
             else Inr j)
      else Inr j)"

text \<open>
  Lines 358-376: the validator if there is none yet, the form group template, the final
  layout and the form group.
\<close>

definition buildForm :: "utils \<Rightarrow> component \<Rightarrow> component" where
  "buildForm U c =
     (if \<not> isEmpty (jsf_schema (jsf c)) then
        (let c1 = (if validateFormData c = None then compileSchema c else c);
             (template, j1) = buildFormGroupTemplate U (jsf c1) (initialValues (jsf c1)) True;
             j2 = j1\<lparr>formGroupTemplate := template\<rparr>;
             (newLayout, j3) = buildLayout U j2;
             j4 = j3\<lparr>jsf_layout := newLayout\<rparr>;
             j5 = j4\<lparr>formGroup := buildFormGroup U (formGroupTemplate j4)\<rparr>
         in c1\<lparr>jsf := j5\<rparr>)
      else c)"

text \<open>
  Lines 397-405, 410-413, 417-422: what is emitted. \<^verbatim>\<open>formatFormData\<close> is called
  with four arguments; its fifth parameter is then falsy.
\<close>

definition formattedData :: "utils \<Rightarrow> jsf_service \<Rightarrow> json \<Rightarrow> bool \<Rightarrow> json" where
  "formattedData U j v final =
     formatFormData U v (dataMap j) (dataCircularRefMap j) (arrayMap j) final"

definition emitValidation :: "utils \<Rightarrow> component \<Rightarrow> json \<Rightarrow> error + component" where
  "emitValidation U c formatted =
     (case validateFormData c of
        None \<Rightarrow> Inl TypeError
      | Some (Validator s) \<Rightarrow>
          (case ajv_validate U s formatted of
             (isValid, errors) \<Rightarrow>
               Inr (c\<lparr>emitted := emitted c @ [IsValid isValid, ValidationErrors errors]\<rparr>)))"

text \<open>The subscriber of \<^verbatim>\<open>formGroup.valueChanges\<close> (lines 396-406).\<close>

definition valueChanged :: "utils \<Rightarrow> json \<Rightarrow> component \<Rightarrow> error + component" where
  "valueChanged U v c =
     (let formatted = formattedData U (jsf c) v False
      in emitValidation U (c\<lparr>emitted := emitted c @ [OnChanges formatted]\<rparr>) formatted)"

text \<open>Lines 378-441: rendering is switched on and the initial data is emitted.\<close>

definition activateForm :: "utils \<Rightarrow> component \<Rightarrow> error + component" where
  "activateForm U c =
     (if truthy (formGroup (jsf c)) then
        (let v = formGroup_value U (formGroup (jsf c));
             c1 = c\<lparr>formInitialized := True,
                    emitted := emitted c @ [OnChanges (formattedData U (jsf c) v False)]\<rparr>
         in if truthy (js_get (globalOptions (jsf c)) ''validateOnRender'')
            then emitValidation U c1 (formattedData U (jsf c) v False)
            else Inr c1)
      else Inr c)"

text \<open>Lines 346-441 together: what happens once schema, layout and values are chosen.\<close>

definition finishForm :: "utils \<Rightarrow> component \<Rightarrow> error + component" where
  "finishForm U c =
     then_do (synthesizeSchema U (jsf c)) (\<lambda>j. activateForm U (buildForm U (c\<lparr>jsf := j\<rparr>)))"

text \<open>\<^verbatim>\<open>initializeForm\<close> (lines 131-442).\<close>

definition initializeForm :: "utils \<Rightarrow> component \<Rightarrow> error + component" where
  "initializeForm U c =
     (if inputs_present c then
        then_do (resolveSchema U (initSchema (initOptions U (resetEngine c))))
          (\<lambda>c1. then_do (importAlternateLayout U (initLayout U c1))
             (\<lambda>c2. finishForm U (initValues c2)))
      else Inr c)"

text \<open>
  \<^verbatim>\<open>submitForm\<close> (lines 465-470). Reading \<^verbatim>\<open>.value\<close> of a \<^verbatim>\<open>null\<close> form group
  throws.
\<close>

definition submitForm :: "utils \<Rightarrow> component \<Rightarrow> error + component" where
  "submitForm U c =
     (if formGroup (jsf c) = JNull \<or> formGroup (jsf c) = JUndef then Inl TypeError
      else Inr (c\<lparr>emitted := emitted c @
                   [OnSubmit (formattedData U (jsf c) (formGroup_value U (formGroup (jsf c))) True)]\<rparr>))"

section \<open>One instance of the utilities\<close>

text \<open>
  Modelled from the spec: the utilities are not among the sources, and to run the model
  on concrete inputs the parameters need values. \<open>sample_utils\<close> is one choice, which
  follows the spec where the spec speaks. Its \<^verbatim>\<open>JsonPointer\<close> functions read a pointer
  as a path of keys (array items by decimal index), \<open>set\<close> creating the objects on the
  way that are missing; a reference \<^verbatim>\<open>#/a/b\<close> is compiled to the path \<^verbatim>\<open>/a/b\<close>; a
  reference is looked up in the library, else from the schema root, and is
  \<^verbatim>\<open>undefined\<close> when the path does not exist; \<open>forEachDeep\<close> calls the step on a
  value before the values inside it, as the spec says of the resolver. Options are
  merged key by key. A schema built from a layout has one string property for each
  layout entry that names a key (type hints are not read); a schema built from data
  follows the shape of the data, an array taking the type of its first item. The form
  group template, the final layout, the form group and the formatter, which the spec
  does not determine, are the simplest functions of their types. The theorems about \<open>initializeForm\<close> hold for every choice of the
  parameters; the instance only supplies runs.
\<close>

fun string_of_nat :: "nat \<Rightarrow> string" where
  "string_of_nat n =
     (if n < 10 then [''0123456789'' ! n]
      else string_of_nat (n div 10) @ [''0123456789'' ! (n mod 10)])"

fun nth_by_token :: "json list \<Rightarrow> nat \<Rightarrow> string \<Rightarrow> json option" where
  "nth_by_token [] i k = None"
| "nth_by_token (x # xs) i k = (if string_of_nat i = k then Some x else nth_by_token xs (Suc i) k)"

fun put_by_token :: "json list \<Rightarrow> nat \<Rightarrow> string \<Rightarrow> json \<Rightarrow> json list" where
  "put_by_token [] i k y = []"
| "put_by_token (x # xs) i k y =
     (if string_of_nat i = k then y # xs else x # put_by_token xs (Suc i) k y)"

fun path_get :: "json \<Rightarrow> string list \<Rightarrow> json option" where
  "path_get v [] = Some v"
| "path_get (JObj kvs) (k # ks) =
     (case map_of kvs k of None \<Rightarrow> None | Some w \<Rightarrow> path_get w ks)"
| "path_get (JArr xs) (k # ks) =
     (case nth_by_token xs 0 k of None \<Rightarrow> None | Some w \<Rightarrow> path_get w ks)"
| "path_get v (k # ks) = None"

fun path_set :: "json \<Rightarrow> string list \<Rightarrow> json \<Rightarrow> json" where
  "path_set v [] y = y"
| "path_set (JObj kvs) (k # ks) y =
     JObj (AList.update k
             (path_set (case map_of kvs k of None \<Rightarrow> JObj [] | Some w \<Rightarrow> w) ks y) kvs)"
| "path_set (JArr xs) (k # ks) y =
     (case nth_by_token xs 0 k of
        None \<Rightarrow> JArr xs
      | Some w \<Rightarrow> JArr (put_by_token xs 0 k (path_set w ks y)))"
| "path_set v (k # ks) y = v"

fun pointer_path :: "pointer \<Rightarrow> string list" where
  "pointer_path (PStr s) = tokens s"
| "pointer_path (PArr ks) = ks"

fun strip_hash :: "string \<Rightarrow> string" where
  "strip_hash [] = []"
| "strip_hash (c # cs) = (if c = CHR ''#'' then cs else c # cs)"

definition last_token :: "string \<Rightarrow> string" where
  "last_token s = (case tokens s of [] \<Rightarrow> [] | ks \<Rightarrow> last ks)"

fun visit_all :: "string \<Rightarrow> json \<Rightarrow> (json \<times> string) list"
  and visit_fields :: "string \<Rightarrow> (string \<times> json) list \<Rightarrow> (json \<times> string) list"
  and visit_items :: "string \<Rightarrow> nat \<Rightarrow> json list \<Rightarrow> (json \<times> string) list" where
  "visit_all p (JObj kvs) = (JObj kvs, p) # visit_fields p kvs"
| "visit_all p (JArr xs) = (JArr xs, p) # visit_items p 0 xs"
| "visit_all p JUndef = [(JUndef, p)]"
| "visit_all p JNull = [(JNull, p)]"
| "visit_all p (JBool b) = [(JBool b, p)]"
| "visit_all p (JNum n) = [(JNum n, p)]"
| "visit_all p (JStr s) = [(JStr s, p)]"
| "visit_fields p [] = []"
| "visit_fields p (kv # kvs) = visit_all (p @ ''/'' @ fst kv) (snd kv) @ visit_fields p kvs"
| "visit_items p i [] = []"
| "visit_items p i (x # xs) = visit_all (p @ ''/'' @ string_of_nat i) x @ visit_items p (Suc i) xs"

fun run_steps :: "(json \<Rightarrow> string \<Rightarrow> jsf_service \<Rightarrow> error + jsf_service)
                    \<Rightarrow> (json \<times> string) list \<Rightarrow> jsf_service \<Rightarrow> error + jsf_service" where
  "run_steps fn [] j = Inr j"
| "run_steps fn (vp # vps) j = then_do (fn (fst vp) (snd vp) j) (run_steps fn vps)"

fun layout_property :: "json \<Rightarrow> (string \<times> json) list" where
  "layout_property (JObj kvs) =
     (case map_of kvs ''key'' of
        Some (JStr k) \<Rightarrow> [(k, JObj [(''type'', JStr ''string'')])]
      | _ \<Rightarrow> [])"
| "layout_property (JStr k) = (if k = ''*'' then [] else [(k, JObj [(''type'', JStr ''string'')])])"
| "layout_property v = []"

fun schema_from_layout :: "json \<Rightarrow> json" where
  "schema_from_layout (JArr xs) =
     JObj [(''type'', JStr ''object''), (''properties'', JObj (concat (map layout_property xs)))]"
| "schema_from_layout v = JObj []"

fun schema_from_data :: "json \<Rightarrow> json"
  and schema_from_fields :: "(string \<times> json) list \<Rightarrow> (string \<times> json) list" where
  "schema_from_data (JObj kvs) =
     JObj [(''type'', JStr ''object''), (''properties'', JObj (schema_from_fields kvs))]"
| "schema_from_data (JArr []) = JObj [(''type'', JStr ''array'')]"
| "schema_from_data (JArr (x # xs)) =
     JObj [(''type'', JStr ''array''), (''items'', schema_from_data x)]"
| "schema_from_data (JStr s) = JObj [(''type'', JStr ''string'')]"
| "schema_from_data (JNum n) = JObj [(''type'', JStr ''number'')]"
| "schema_from_data (JBool b) = JObj [(''type'', JStr ''boolean'')]"
| "schema_from_data JNull = JObj [(''type'', JStr ''null'')]"
| "schema_from_data JUndef = JObj []"
| "schema_from_fields [] = []"
| "schema_from_fields (kv # kvs) = (fst kv, schema_from_data (snd kv)) # schema_from_fields kvs"

definition merge_options :: "json \<Rightarrow> json \<Rightarrow> json" where
  "merge_options old new =
     (case (old, new) of (JObj a, JObj b) \<Rightarrow> JObj (assign_keys a b) | _ \<Rightarrow> new)"

definition sample_utils :: utils where
  "sample_utils =
     \<lparr>setOptions = merge_options,
      setTpldata = merge_options,
      getFramework = (\<lambda>assets fw. fw),
      convertJsonSchema3to4 = (\<lambda>s. s),
      JsonPointer_compile = strip_hash,
      JsonPointer_parse = tokens,
      JsonPointer_toKey = last_token,
      JsonPointer_has = (\<lambda>obj p. path_get obj (pointer_path p) \<noteq> None),
      JsonPointer_set = (\<lambda>obj p y. path_set obj (pointer_path p) y),
      forEachDeep = (\<lambda>obj fn flag j. run_steps fn (visit_all [] obj) j),
      getSchemaReference =
        (\<lambda>root ref lib. if hasOwn lib ref then js_get lib ref
                         else (case path_get root (tokens ref) of None \<Rightarrow> JUndef | Some v \<Rightarrow> v)),
      fixJsonFormOptions = (\<lambda>l. l),
      buildSchemaFromLayout = schema_from_layout,
      buildSchemaFromData = schema_from_data,
      buildFormGroupTemplate = (\<lambda>j v flag. (JObj [], j)),
      buildLayout = (\<lambda>j. (jsf_layout j, j)),
      buildFormGroup = (\<lambda>t. JObj [(''value'', JObj [])]),
      formGroup_value = (\<lambda>g. js_get g ''value''),
      formatFormData = (\<lambda>v dm cm am final. v),
      ajv_validate = (\<lambda>s d. (True, JNull))\<rparr>"

text \<open>A component before its first initialization, with no input supplied.\<close>

definition empty_service :: jsf_service where
  "empty_service =
     \<lparr>jsf_schema = JObj [], jsf_layout = JArr [], initialValues = JObj [], dataMap = [],
      schemaRefLibrary = [], layoutRefLibrary = JObj [], formGroupTemplate = JObj [],
      formGroup = JNull, globalOptions = JObj [], jsf_framework = JNull, tpldata = JObj [],
      AngularSchemaFormCompatibility = False, ReactJsonSchemaFormCompatibility = False,
      JsonFormCompatibility = False, schemaCircularRefMap = [], dataCircularRefMap = [],
      arrayMap = []\<rparr>"

definition new_component :: component where
  "new_component =
     \<lparr>formInitialized = False, validateFormData = None, ajv_compiled = [],
      schema = JUndef, layout = JUndef, data = JUndef, options = JUndef, form = JUndef,
      model = JUndef, JSONSchema = JUndef, UISchema = JUndef, formData = JUndef,
      framework = JUndef, loadExternalAssets = JUndef, debug = JUndef,
      jsf = empty_service, fl_loadExternalAssets = JBool False, fl_framework = JNull,
      emitted = []\<rparr>"

section \<open>The traversal, from the spec\<close>

text \<open>
  Modelled from the spec: \<^verbatim>\<open>JsonPointer.forEachDeep\<close> is not among the sources, and the
  component hands it the callbacks of lines 218-244 and 291-316. The spec, section 4.2:
  the resolver performs a depth-first, parent-before-child traversal of every node, in
  document order and in one pass, without revisiting the subtrees that it splices in.
  \<open>spec_traversal U\<close> says this of the parameter \<open>forEachDeep U\<close>: the callback is run
  on every value of the tree as it stands when the traversal starts, a value before the
  values inside it, each with its pointer, and the first error ends the traversal. The
  theorems about a whole traversal assume it; \<open>sample_utils\<close> satisfies it.
\<close>

definition spec_traversal :: "utils \<Rightarrow> bool" where
  "spec_traversal U =
     (\<forall>obj fn flag j. forEachDeep U obj fn flag j = run_steps fn (visit_all [] obj) j)"

text \<open>
  The target of the reference that a node bears, if it bears one (lines 219-220): its
  \<^verbatim>\<open>$ref\<close>, when that is a string, compiled to a pointer.
\<close>

definition refTarget :: "utils \<Rightarrow> json \<Rightarrow> string option" where
  "refTarget U v =
     (case js_get v ''$ref'' of JStr ref \<Rightarrow> Some (JsonPointer_compile U ref) | _ \<Rightarrow> None)"

text \<open>
  Of the visited nodes, in the order of the visit: those with a circular reference (line
  221), as pairs of the node's pointer and the target, and those with a reference that
  is not circular, as triples of the node, its pointer and the target.
\<close>

definition circularRefsOf :: "utils \<Rightarrow> (json \<times> string) list \<Rightarrow> (string \<times> string) list" where
  "circularRefsOf U nodes =
     concat (map (\<lambda>vp. case refTarget U (fst vp) of
                          None \<Rightarrow> []
                        | Some t \<Rightarrow> if isSubPointer t (snd vp) then [(snd vp, t)] else []) nodes)"

definition inlinedRefsOf :: "utils \<Rightarrow> (json \<times> string) list \<Rightarrow> (json \<times> string \<times> string) list" where
  "inlinedRefsOf U nodes =
     concat (map (\<lambda>vp. case refTarget U (fst vp) of
                          None \<Rightarrow> []
                        | Some t \<Rightarrow> if isSubPointer t (snd vp) then [] else [(fst vp, snd vp, t)]) nodes)"

text \<open>
  A list of pairs recorded in the circular reference map, one after the other (line
  241), and a list of values written into the schema at their pointers, one after the
  other (line 238).
\<close>

definition recordAll :: "(string \<times> string) list \<Rightarrow> (string \<times> string) list \<Rightarrow> (string \<times> string) list" where
  "recordAll pairs m = fold (\<lambda>pt. AList.update (fst pt) (snd pt)) pairs m"

definition writeAll :: "utils \<Rightarrow> (string \<times> json) list \<Rightarrow> json \<Rightarrow> json" where
  "writeAll U writes s = fold (\<lambda>pm s'. JsonPointer_set U s' (PStr (fst pm)) (snd pm)) writes s"

text \<open>
  \<open>inlining_of lib r m\<close>: \<open>m\<close> is what lines 232-237 compute for the node of \<open>r\<close> when
  the library is \<open>lib\<close>. The node is an object, the library holds an object for the
  target, and \<open>m\<close> is that object with the keys of the node, \<^verbatim>\<open>$ref\<close> deleted,
  assigned over it.
\<close>

definition inlining_of :: "(string \<times> json) list \<Rightarrow> json \<times> string \<times> string \<Rightarrow> json \<Rightarrow> bool" where
  "inlining_of lib r m =
     (case (fst r, map_of lib (snd (snd r))) of
        (JObj kvs, Some (JObj template)) \<Rightarrow>
          m = JObj (assign_keys template (AList.delete ''$ref'' kvs))
      | _ \<Rightarrow> False)"

section \<open>Example inputs\<close>

text \<open>
  Scenarios 1 to 3 of the spec: a schema with one string field; a schema whose field
  \<^verbatim>\<open>a\<close> refers to its sibling \<^verbatim>\<open>b\<close>; a schema whose field \<^verbatim>\<open>node\<close> refers to
  the root.
\<close>

definition scenario1_schema :: json where
  "scenario1_schema =
     JObj [(''type'', JStr ''object''),
           (''properties'', JObj [(''name'', JObj [(''type'', JStr ''string'')])])]"

definition scenario2_schema :: json where
  "scenario2_schema =
     JObj [(''type'', JStr ''object''),
           (''properties'',
            JObj [(''a'', JObj [(''$ref'', JStr ''#/properties/b'')]),
                  (''b'', JObj [(''type'', JStr ''number'')])])]"

definition scenario2_resolved :: json where
  "scenario2_resolved =
     JObj [(''type'', JStr ''object''),
           (''properties'',
            JObj [(''a'', JObj [(''type'', JStr ''number'')]),
                  (''b'', JObj [(''type'', JStr ''number'')])])]"

definition scenario3_schema :: json where
  "scenario3_schema =
     JObj [(''type'', JStr ''object''),
           (''properties'', JObj [(''node'', JObj [(''$ref'', JStr ''#'')])])]"

text \<open>
  A first initialization with each schema, and a second initialization of the
  component that scenario 3 leaves, after its \<^verbatim>\<open>schema\<close> input is replaced by the
  schema of scenario 1.
\<close>

definition scenario2_input :: component where
  "scenario2_input = new_component\<lparr>schema := scenario2_schema\<rparr>"

definition scenario2_run :: "error + component" where
  "scenario2_run = initializeForm sample_utils scenario2_input"

definition scenario3_run :: "error + component" where
  "scenario3_run = initializeForm sample_utils (new_component\<lparr>schema := scenario3_schema\<rparr>)"

definition scenario3_then_1_run :: "error + component" where
  "scenario3_then_1_run =
     then_do scenario3_run (\<lambda>c. initializeForm sample_utils (c\<lparr>schema := scenario1_schema\<rparr>))"

text \<open>A first initialization with nothing but a layout that is the wildcard.\<close>

definition wildcard_only_run :: "error + component" where
  "wildcard_only_run = initializeForm sample_utils (new_component\<lparr>layout := JArr [JStr ''*'']\<rparr>)"

text \<open>A component that is given only \<^verbatim>\<open>model\<close>, \<^verbatim>\<open>formData\<close> and \<^verbatim>\<open>options\<close>.\<close>

definition data_only_input :: component where
  "data_only_input =
     new_component\<lparr>model := JObj [(''a'', JNum 1)], formData := JObj [(''b'', JNum 2)],
                    options := JObj [(''debug'', JBool True)]\<rparr>"

text \<open>Schemas written in the JSON Form shorthand: without \<^verbatim>\<open>type\<close>, and as a bare bag of fields.\<close>

definition shorthand_no_type :: json where
  "shorthand_no_type = JObj [(''properties'', JObj [(''name'', JObj [(''type'', JStr ''string'')])])]"

definition shorthand_bag :: json where
  "shorthand_bag = JObj [(''name'', JObj [(''type'', JStr ''string'')])]"

text \<open>
  One component for each source of the layout: a direct layout (beside a \<^verbatim>\<open>form\<close> that
  is an array too), a \<^verbatim>\<open>form\<close> that is an array, a \<^verbatim>\<open>form\<close> object with \<^verbatim>\<open>form\<close>
  and \<^verbatim>\<open>layout\<close>, one with \<^verbatim>\<open>layout\<close> only, and none of them.
\<close>

definition layout_direct_input :: component where
  "layout_direct_input = new_component\<lparr>layout := JArr [JStr ''a''], form := JArr [JStr ''b'']\<rparr>"

definition layout_form_array_input :: component where
  "layout_form_array_input = new_component\<lparr>form := JArr [JStr ''b'']\<rparr>"

definition layout_form_form_input :: component where
  "layout_form_form_input =
     new_component\<lparr>form := JObj [(''form'', JArr [JStr ''c'']), (''layout'', JArr [JStr ''d''])]\<rparr>"

definition layout_form_layout_input :: component where
  "layout_form_layout_input = new_component\<lparr>form := JObj [(''layout'', JArr [JStr ''d''])]\<rparr>"

definition layout_default_input :: component where
  "layout_default_input = new_component\<lparr>schema := scenario1_schema\<rparr>"






text \<open>
  A schema with four references: \<^verbatim>\<open>tree.child\<close> refers to the \<^verbatim>\<open>tree\<close> above it,
  \<^verbatim>\<open>self\<close> to itself, \<^verbatim>\<open>leafy\<close> to its sibling \<^verbatim>\<open>leaf\<close>, with a \<^verbatim>\<open>type\<close> of
  its own that \<^verbatim>\<open>leaf\<close> has too and a \<^verbatim>\<open>title\<close> that \<^verbatim>\<open>leaf\<close> has not. Then the same
  schema with the reference of \<^verbatim>\<open>leafy\<close> inlined and the two others left as they are,
  and the resolution (lines 193-244) run on the first.
\<close>

definition nested_schema :: json where
  "nested_schema =
     JObj [(''type'', JStr ''object''),
           (''properties'',
            JObj [(''tree'', JObj [(''type'', JStr ''object''),
                                   (''properties'',
                                    JObj [(''child'', JObj [(''$ref'', JStr ''#/properties/tree'')])])]),
                  (''self'', JObj [(''$ref'', JStr ''#/properties/self'')]),
                  (''leaf'', JObj [(''type'', JStr ''number''), (''minimum'', JNum 0)]),
                  (''leafy'', JObj [(''$ref'', JStr ''#/properties/leaf''),
                                    (''type'', JStr ''integer''), (''title'', JStr ''L'')])])]"

definition nested_resolved :: json where
  "nested_resolved =
     JObj [(''type'', JStr ''object''),
           (''properties'',
            JObj [(''tree'', JObj [(''type'', JStr ''object''),
                                   (''properties'',
                                    JObj [(''child'', JObj [(''$ref'', JStr ''#/properties/tree'')])])]),
                  (''self'', JObj [(''$ref'', JStr ''#/properties/self'')]),
                  (''leaf'', JObj [(''type'', JStr ''number''), (''minimum'', JNum 0)]),
                  (''leafy'', JObj [(''type'', JStr ''integer''), (''minimum'', JNum 0),
                                    (''title'', JStr ''L'')])])]"

definition nested_input :: component where
  "nested_input = new_component\<lparr>jsf := empty_service\<lparr>jsf_schema := nested_schema\<rparr>\<rparr>"

definition nested_run :: "error + component" where
  "nested_run = resolveSchema sample_utils nested_input"



text \<open>A schema in which the field \<^verbatim>\<open>name\<close> already has a widget hint and \<^verbatim>\<open>age\<close> has none.\<close>

definition hinted_service :: jsf_service where
  "hinted_service =
     empty_service\<lparr>jsf_schema :=
       JObj [(''type'', JStr ''object''),
             (''properties'',
              JObj [(''name'', JObj [(''type'', JStr ''string''),
                                     (''x-schema-form'', JObj [(''widget'', JStr ''text'')])]),
                    (''age'', JObj [(''type'', JStr ''number'')])])]\<rparr>"

text \<open>
  A hint document in the style of React JSON Schema Form, with a widget for \<^verbatim>\<open>age\<close>
  and one for \<^verbatim>\<open>name\<close>; the schema of \<open>hinted_service\<close> after these hints are
  imported; and the three inputs that supply the document: as \<^verbatim>\<open>UISchema\<close>, as
  \<^verbatim>\<open>form.UISchema\<close> and as \<^verbatim>\<open>form.customFormItems\<close>.
\<close>

definition hints_document :: json where
  "hints_document =
     JObj [(''age'', JObj [(''ui:widget'', JStr ''updown'')]),
           (''name'', JObj [(''ui:widget'', JStr ''textarea'')])]"

definition hinted_result :: json where
  "hinted_result =
     JObj [(''type'', JStr ''object''),
           (''properties'',
            JObj [(''name'', JObj [(''type'', JStr ''string''),
                                   (''x-schema-form'', JObj [(''widget'', JStr ''text'')])]),
                  (''age'', JObj [(''type'', JStr ''number''),
                                  (''x-schema-form'', JObj [(''widget'', JStr ''updown'')])])]),
           (''x-schema-form'',
            JObj [(''age'', JObj [(''ui:widget'', JStr ''updown'')]),
                  (''name'', JObj [(''ui:widget'', JStr ''textarea'')])])]"

definition hints_input :: component where
  "hints_input = new_component\<lparr>UISchema := hints_document, jsf := hinted_service\<rparr>"

definition form_hints_input :: component where
  "form_hints_input =
     new_component\<lparr>form := JObj [(''UISchema'', hints_document)], jsf := hinted_service\<rparr>"

definition custom_items_input :: component where
  "custom_items_input =
     new_component\<lparr>form := JObj [(''customFormItems'', hints_document)], jsf := hinted_service\<rparr>"

section \<open>Properties\<close>

subsection \<open>Reading and writing object keys\<close>

lemma js_get_put_same: "isObject s \<Longrightarrow> js_get (js_put s k v) k = v"
  by (cases s) (simp_all add: update_conv')

lemma js_get_put_other: "k' \<noteq> k \<Longrightarrow> js_get (js_put s k v) k' = js_get s k'"
  by (cases s) (simp_all add: update_conv')

lemma hasOwn_isObject: "hasOwn s k \<Longrightarrow> isObject s"
  by (cases s) simp_all

lemma js_get_JStr_hasOwn: "js_get v k = JStr r \<Longrightarrow> hasOwn v k"
  by (cases v) (auto split: option.splits)

lemma then_do_Inr: "then_do r f = Inr y \<Longrightarrow> \<exists>x. r = Inr x \<and> f x = Inr y"
  by (cases r) (simp_all add: then_do_def)

subsection \<open>No input, no effect\<close>

text \<open>
  Claim C10. When \<^verbatim>\<open>schema\<close>, \<^verbatim>\<open>layout\<close>, \<^verbatim>\<open>data\<close>, \<^verbatim>\<open>form\<close>, \<^verbatim>\<open>JSONSchema\<close> and
  \<^verbatim>\<open>UISchema\<close> are all absent, \<^verbatim>\<open>initializeForm\<close> returns normally and leaves the
  whole component as it was: no field of the service is reset or rebuilt and nothing is
  emitted, whatever \<^verbatim>\<open>model\<close>, \<^verbatim>\<open>formData\<close>, \<^verbatim>\<open>options\<close> and the other fields hold.
\<close>

theorem initializeForm_absent_inputs:
  assumes "schema c = JUndef" and "layout c = JUndef" and "data c = JUndef"
    and "form c = JUndef" and "JSONSchema c = JUndef" and "UISchema c = JUndef"
  shows "initializeForm U c = Inr c"
  using assms by (simp add: initializeForm_def inputs_present_def)

theorem initializeForm_absent_inputs_witness:
  "schema data_only_input = JUndef \<and> layout data_only_input = JUndef \<and>
   data data_only_input = JUndef \<and> form data_only_input = JUndef \<and>
   JSONSchema data_only_input = JUndef \<and> UISchema data_only_input = JUndef \<and>
   model data_only_input = JObj [(''a'', JNum 1)] \<and>
   initializeForm sample_utils data_only_input = Inr data_only_input"
proof -
  have h: "schema data_only_input = JUndef" "layout data_only_input = JUndef"
    "data data_only_input = JUndef" "form data_only_input = JUndef"
    "JSONSchema data_only_input = JUndef" "UISchema data_only_input = JUndef"
    by (simp_all add: data_only_input_def new_component_def)
  have "model data_only_input = JObj [(''a'', JNum 1)]"
    by (simp add: data_only_input_def new_component_def)
  with h initializeForm_absent_inputs [OF h, of sample_utils] show ?thesis
    by simp
qed

subsection \<open>The JSON Form shorthand\<close>

text \<open>
  Claim C6. \<open>normalizeSchema\<close> is what \<^verbatim>\<open>initializeForm\<close> does first with a canonical
  schema that is not empty. If the schema has no \<^verbatim>\<open>type\<close> key but has a \<^verbatim>\<open>properties\<close>
  key whose value is an object, the key \<^verbatim>\<open>type\<close> is written into the schema itself with
  the value \<^verbatim>\<open>"object"\<close>: every other key reads as before and the JSON Form flag is
  left alone. Otherwise, if the schema has no \<^verbatim>\<open>type\<close>, or a \<^verbatim>\<open>type\<close> other than
  \<^verbatim>\<open>"object"\<close>, or no \<^verbatim>\<open>properties\<close>, the schema becomes
  \<^verbatim>\<open>{type: "object", properties: <the old schema>}\<close> and the JSON Form flag is set.
\<close>

theorem normalizeSchema_shorthand:
  fixes j :: jsf_service
  defines "s \<equiv> jsf_schema j" and "j' \<equiv> normalizeSchema j"
  shows "(\<not> hasOwn s ''type'' \<and> hasOwn s ''properties'' \<and> isObject (js_get s ''properties'') \<longrightarrow>
            jsf_schema j' = js_put s ''type'' (JStr ''object'') \<and>
            js_get (jsf_schema j') ''type'' = JStr ''object'' \<and>
            (\<forall>k. k \<noteq> ''type'' \<longrightarrow> js_get (jsf_schema j') k = js_get s k) \<and>
            JsonFormCompatibility j' = JsonFormCompatibility j)
       \<and> (\<not> (\<not> hasOwn s ''type'' \<and> hasOwn s ''properties'' \<and> isObject (js_get s ''properties'')) \<and>
            (\<not> hasOwn s ''type'' \<or> js_get s ''type'' \<noteq> JStr ''object'' \<or>
             \<not> hasOwn s ''properties'') \<longrightarrow>
            jsf_schema j' = JObj [(''type'', JStr ''object''), (''properties'', s)] \<and>
            JsonFormCompatibility j')"
  unfolding s_def j'_def
  by (auto simp add: normalizeSchema_def Let_def js_get_put_same js_get_put_other
        dest: hasOwn_isObject)

theorem normalizeSchema_shorthand_witness:
  "\<not> hasOwn shorthand_no_type ''type'' \<and> hasOwn shorthand_no_type ''properties'' \<and>
   isObject (js_get shorthand_no_type ''properties'') \<and>
   jsf_schema (normalizeSchema (empty_service\<lparr>jsf_schema := shorthand_no_type\<rparr>)) =
     JObj [(''properties'', JObj [(''name'', JObj [(''type'', JStr ''string'')])]),
           (''type'', JStr ''object'')] \<and>
   \<not> JsonFormCompatibility (normalizeSchema (empty_service\<lparr>jsf_schema := shorthand_no_type\<rparr>)) \<and>
   \<not> hasOwn shorthand_bag ''type'' \<and> \<not> hasOwn shorthand_bag ''properties'' \<and>
   jsf_schema (normalizeSchema (empty_service\<lparr>jsf_schema := shorthand_bag\<rparr>)) =
     JObj [(''type'', JStr ''object''), (''properties'', shorthand_bag)] \<and>
   JsonFormCompatibility (normalizeSchema (empty_service\<lparr>jsf_schema := shorthand_bag\<rparr>))"
  using normalizeSchema_shorthand [of "empty_service\<lparr>jsf_schema := shorthand_no_type\<rparr>"]
    normalizeSchema_shorthand [of "empty_service\<lparr>jsf_schema := shorthand_bag\<rparr>"]
  by (simp add: shorthand_no_type_def shorthand_bag_def empty_service_def)

subsection \<open>The source of the layout\<close>

text \<open>
  Claim C8. After lines 254-267 the canonical layout \<^verbatim>\<open>this.jsf.layout\<close> is: the
  \<^verbatim>\<open>layout\<close> input if that is an array; else the \<^verbatim>\<open>form\<close> input if that is an array;
  else \<^verbatim>\<open>form.form\<close> if that is an array (it is what \<^verbatim>\<open>this.form.form\<close> holds after
  \<^verbatim>\<open>fixJsonFormOptions\<close> has worked on it in place); else \<^verbatim>\<open>form.layout\<close> if that is an
  array; else \<^verbatim>\<open>['*', {type: 'submit', title: 'Submit'}]\<close>. Each case is stated for
  every value of the inputs of lower precedence, so they have no influence on it.
\<close>

theorem initLayout_precedence:
  fixes U :: utils and c :: component
  defines "c' \<equiv> initLayout U c"
  shows "(isArray (layout c) \<longrightarrow> jsf_layout (jsf c') = layout c)
       \<and> (\<not> isArray (layout c) \<and> isArray (form c) \<longrightarrow> jsf_layout (jsf c') = form c)
       \<and> (\<not> isArray (layout c) \<and> \<not> isArray (form c) \<and> isArray (js_get (form c) ''form'') \<longrightarrow>
            js_get (form c') ''form'' = jsf_layout (jsf c') \<and>
            jsf_layout (jsf c') = fixJsonFormOptions U (js_get (form c) ''form''))
       \<and> (\<not> isArray (layout c) \<and> \<not> isArray (form c) \<and> \<not> isArray (js_get (form c) ''form'') \<and>
            isArray (js_get (form c) ''layout'') \<longrightarrow>
            jsf_layout (jsf c') = js_get (form c) ''layout'')
       \<and> (\<not> isArray (layout c) \<and> \<not> isArray (form c) \<and> \<not> isArray (js_get (form c) ''form'') \<and>
            \<not> isArray (js_get (form c) ''layout'') \<longrightarrow>
            jsf_layout (jsf c') =
              JArr [JStr ''*'', JObj [(''type'', JStr ''submit''), (''title'', JStr ''Submit'')]])"
  unfolding c'_def
  apply (cases "form c")
  apply (auto simp add: initLayout_def Let_def defaultLayout_def update_conv')
  done

theorem initLayout_precedence_witness:
  "isArray (layout layout_direct_input) \<and> isArray (form layout_direct_input) \<and>
   jsf_layout (jsf (initLayout sample_utils layout_direct_input)) = JArr [JStr ''a''] \<and>
   \<not> isArray (layout layout_form_array_input) \<and> isArray (form layout_form_array_input) \<and>
   jsf_layout (jsf (initLayout sample_utils layout_form_array_input)) = JArr [JStr ''b''] \<and>
   \<not> isArray (layout layout_form_form_input) \<and> \<not> isArray (form layout_form_form_input) \<and>
   isArray (js_get (form layout_form_form_input) ''form'') \<and>
   isArray (js_get (form layout_form_form_input) ''layout'') \<and>
   jsf_layout (jsf (initLayout sample_utils layout_form_form_input)) = JArr [JStr ''c''] \<and>
   \<not> isArray (js_get (form layout_form_layout_input) ''form'') \<and>
   isArray (js_get (form layout_form_layout_input) ''layout'') \<and>
   jsf_layout (jsf (initLayout sample_utils layout_form_layout_input)) = JArr [JStr ''d''] \<and>
   \<not> isArray (layout layout_default_input) \<and> \<not> isArray (form layout_default_input) \<and>
   \<not> isArray (js_get (form layout_default_input) ''form'') \<and>
   \<not> isArray (js_get (form layout_default_input) ''layout'') \<and>
   jsf_layout (jsf (initLayout sample_utils layout_default_input)) =
     JArr [JStr ''*'', JObj [(''type'', JStr ''submit''), (''title'', JStr ''Submit'')]]"
  using initLayout_precedence [of layout_direct_input sample_utils]
    initLayout_precedence [of layout_form_array_input sample_utils]
    initLayout_precedence [of layout_form_form_input sample_utils]
    initLayout_precedence [of layout_form_layout_input sample_utils]
    initLayout_precedence [of layout_default_input sample_utils]
  by (simp add: layout_direct_input_def layout_form_array_input_def layout_form_form_input_def
        layout_form_layout_input_def layout_default_input_def new_component_def sample_utils_def)

subsection \<open>A form without a schema\<close>



subsection \<open>Resolving references\<close>

lemma cacheReference_frame:
  "jsf_schema (cacheReference U r j) = jsf_schema j"
  "schemaCircularRefMap (cacheReference U r j) = schemaCircularRefMap j"
  by (simp_all add: cacheReference_def)


text \<open>
  A pointer is a sub-pointer of itself and of every pointer below one that it is a
  sub-pointer of: the test of line 221 holds of a target that is the node's own pointer
  or one of its ancestors.
\<close>

lemma isSubPointer_self: "isSubPointer p p"
  by (simp add: isSubPointer_def)

lemma isSubPointer_trans: "isSubPointer a b \<Longrightarrow> isSubPointer b c \<Longrightarrow> isSubPointer a c"
  by (auto simp add: isSubPointer_def)

lemma splitOn_snoc:
  "d \<notin> set k \<Longrightarrow> splitOn d acc (xs @ d # k) = splitOn d acc xs @ [k]"
proof (induction xs arbitrary: acc)
  case Nil
  have "splitOn d a k = [rev a @ k]" if "d \<notin> set k" for a k
    using that by (induction k arbitrary: a) auto
  with Nil show ?case by simp
next
  case (Cons x xs)
  then show ?case by simp
qed

lemma tokens_child: "CHR ''/'' \<notin> set k \<Longrightarrow> tokens (p @ ''/'' @ k) = tokens p @ [k]"
proof (cases p)
  case Nil
  have "splitOn d a k = [rev a @ k]" if "d \<notin> set k" for d a and k :: string
    using that by (induction k arbitrary: a) auto
  with Nil show "CHR ''/'' \<notin> set k \<Longrightarrow> ?thesis" by simp
next
  case (Cons c cs)
  then show "CHR ''/'' \<notin> set k \<Longrightarrow> ?thesis"
    using splitOn_snoc [of "CHR ''/''" k "[]" cs] splitOn_snoc [of "CHR ''/''" k "[]" "c # cs"]
    by auto
qed

lemma isSubPointer_child:
  "CHR ''/'' \<notin> set k \<Longrightarrow> isSubPointer t p \<Longrightarrow> isSubPointer t (p @ ''/'' @ k)"
  using tokens_child [of k p] by (simp add: isSubPointer_def)

text \<open>
  One call of the callback of lines 218-244: on a node without a reference, on a node
  with a circular reference, on a node with a reference that is not circular and whose
  library entry is an object, and on such a node whose library entry is \<^verbatim>\<open>undefined\<close>
  or \<^verbatim>\<open>null\<close>.
\<close>

lemma refTarget_cases:
  "refTarget U v = Some t \<Longrightarrow> \<exists>ref. js_get v ''$ref'' = JStr ref \<and> t = JsonPointer_compile U ref"
  by (auto simp add: refTarget_def split: json.splits)

lemma resolveRef_no_ref:
  "refTarget U v = None \<Longrightarrow> resolveRef U v p j = Inr j"
  by (auto simp add: refTarget_def resolveRef_def split: json.splits)

lemma resolveRef_circular_step:
  assumes "refTarget U v = Some t" and "isSubPointer t p"
  shows "resolveRef U v p j =
           Inr ((cacheReference U t j)\<lparr>schemaCircularRefMap :=
                  AList.update p t (schemaCircularRefMap j)\<rparr>)"
proof -
  from assms(1) obtain ref where r: "js_get v ''$ref'' = JStr ref" "t = JsonPointer_compile U ref"
    by (auto dest: refTarget_cases)
  then have "hasOwn v ''$ref''" by (auto intro: js_get_JStr_hasOwn)
  with r assms(2) show ?thesis
    by (simp add: resolveRef_def Let_def cacheReference_frame)
qed

lemma Object_assign_Inr:
  assumes "Object_assign e (JObj s) = Inr m"
  shows "\<exists>template. e = JObj template \<and> m = JObj (assign_keys template s)"
  using assms by (cases e) simp_all

lemma js_get_JObj_map_of: "js_get (JObj kvs) k = JObj t \<Longrightarrow> map_of kvs k = Some (JObj t)"
  by (simp split: option.splits)

lemma resolveRef_inline_step:
  assumes "refTarget U v = Some t" and "\<not> isSubPointer t p" and "resolveRef U v p j = Inr j1"
  shows "\<exists>kvs template.
           v = JObj kvs \<and>
           map_of (schemaRefLibrary (cacheReference U t j)) t = Some (JObj template) \<and>
           j1 = (cacheReference U t j)\<lparr>jsf_schema :=
                  JsonPointer_set U (jsf_schema j) (PStr p)
                    (JObj (assign_keys template (AList.delete ''$ref'' kvs)))\<rparr>"
proof -
  from assms(1) obtain ref where r: "js_get v ''$ref'' = JStr ref" "t = JsonPointer_compile U ref"
    by (auto dest: refTarget_cases)
  then have own: "hasOwn v ''$ref''" by (auto intro: js_get_JStr_hasOwn)
  then obtain kvs where v: "v = JObj kvs" by (cases v) simp_all
  let ?j = "cacheReference U t j"
  from assms(2,3) r own v obtain m where
    a: "Object_assign (js_get (JObj (schemaRefLibrary ?j)) t) (JObj (AList.delete ''$ref'' kvs)) = Inr m"
    and j1: "j1 = ?j\<lparr>jsf_schema := JsonPointer_set U (jsf_schema j) (PStr p) m\<rparr>"
    by (auto simp add: resolveRef_def Let_def cloneDeep_def cacheReference_frame dest!: then_do_Inr)
  from Object_assign_Inr [OF a] obtain template where
    t: "js_get (JObj (schemaRefLibrary ?j)) t = JObj template"
    and m: "m = JObj (assign_keys template (AList.delete ''$ref'' kvs))"
    by blast
  from t have "map_of (schemaRefLibrary ?j) t = Some (JObj template)"
    by (rule js_get_JObj_map_of)
  with v j1 m show ?thesis by blast
qed


text \<open>An entry of the reference library, once made, is never replaced.\<close>

lemma cacheReference_keeps:
  assumes "map_of (schemaRefLibrary j) k = Some e"
  shows "map_of (schemaRefLibrary (cacheReference U t j)) k = Some e"
  using assms by (auto simp add: cacheReference_def update_conv')

lemma resolveRef_keeps_library:
  assumes "resolveRef U v p j = Inr j1" and "map_of (schemaRefLibrary j) k = Some e"
  shows "map_of (schemaRefLibrary j1) k = Some e"
proof (cases "refTarget U v")
  case None
  with assms show ?thesis by (simp add: resolveRef_no_ref)
next
  case (Some t)
  show ?thesis
  proof (cases "isSubPointer t p")
    case True
    with assms Some show ?thesis
      by (auto simp add: resolveRef_circular_step cacheReference_keeps)
  next
    case False
    from resolveRef_inline_step [OF Some False assms(1)] assms(2) show ?thesis
      by (auto simp add: cacheReference_keeps)
  qed
qed

lemma run_steps_keeps_library:
  "run_steps (resolveRef U) vs j = Inr j' \<Longrightarrow> map_of (schemaRefLibrary j) k = Some e \<Longrightarrow>
     map_of (schemaRefLibrary j') k = Some e"
proof (induction vs arbitrary: j)
  case Nil
  then show ?case by simp
next
  case (Cons vp vs)
  from Cons.prems(1) obtain j1 where s: "resolveRef U (fst vp) (snd vp) j = Inr j1"
    and r: "run_steps (resolveRef U) vs j1 = Inr j'"
    by (auto dest!: then_do_Inr)
  from resolveRef_keeps_library [OF s Cons.prems(2)] Cons.IH [OF r] show ?case by blast
qed

text \<open>
  The calls of a whole traversal, one after the other: what they record in the circular
  reference map, and what they write into the schema.
\<close>

lemma run_steps_circular_map:
  "run_steps (resolveRef U) vs j = Inr j' \<Longrightarrow>
     schemaCircularRefMap j' = recordAll (circularRefsOf U vs) (schemaCircularRefMap j)"
proof (induction vs arbitrary: j)
  case Nil
  then show ?case by (simp add: recordAll_def circularRefsOf_def)
next
  case (Cons vp vs)
  from Cons.prems obtain j1 where s: "resolveRef U (fst vp) (snd vp) j = Inr j1"
    and r: "run_steps (resolveRef U) vs j1 = Inr j'"
    by (auto dest!: then_do_Inr)
  have ih: "schemaCircularRefMap j' = recordAll (circularRefsOf U vs) (schemaCircularRefMap j1)"
    using Cons.IH [OF r] .
  show ?case
  proof (cases "refTarget U (fst vp)")
    case None
    with s have "j1 = j" by (simp add: resolveRef_no_ref)
    with ih None show ?thesis by (simp add: circularRefsOf_def)
  next
    case (Some t)
    show ?thesis
    proof (cases "isSubPointer t (snd vp)")
      case True
      with s Some have "schemaCircularRefMap j1 = AList.update (snd vp) t (schemaCircularRefMap j)"
        by (auto simp add: resolveRef_circular_step cacheReference_frame)
      with ih Some True show ?thesis by (simp add: circularRefsOf_def recordAll_def)
    next
      case False
      from resolveRef_inline_step [OF Some False s]
      have "schemaCircularRefMap j1 = schemaCircularRefMap j"
        by (auto simp add: cacheReference_frame)
      with ih Some False show ?thesis by (simp add: circularRefsOf_def)
    qed
  qed
qed

lemma inlining_of_keeps:
  assumes "inlining_of lib r m" and "\<And>k e. map_of lib k = Some e \<Longrightarrow> map_of lib' k = Some e"
  shows "inlining_of lib' r m"
  using assms
  by (auto simp add: inlining_of_def split: json.splits option.splits)

lemma run_steps_inlined:
  "run_steps (resolveRef U) vs j = Inr j' \<Longrightarrow>
     \<exists>ms. list_all2 (inlining_of (schemaRefLibrary j')) (inlinedRefsOf U vs) ms \<and>
          jsf_schema j' =
            writeAll U (zip (map (\<lambda>r. fst (snd r)) (inlinedRefsOf U vs)) ms) (jsf_schema j)"
proof (induction vs arbitrary: j)
  case Nil
  then show ?case by (simp add: inlinedRefsOf_def writeAll_def)
next
  case (Cons vp vs)
  from Cons.prems obtain j1 where s: "resolveRef U (fst vp) (snd vp) j = Inr j1"
    and r: "run_steps (resolveRef U) vs j1 = Inr j'"
    by (auto dest!: then_do_Inr)
  from Cons.IH [OF r] obtain ms where
    ih1: "list_all2 (inlining_of (schemaRefLibrary j')) (inlinedRefsOf U vs) ms" and
    ih2: "jsf_schema j' =
            writeAll U (zip (map (\<lambda>r. fst (snd r)) (inlinedRefsOf U vs)) ms) (jsf_schema j1)"
    by blast
  show ?case
  proof (cases "refTarget U (fst vp)")
    case None
    with s have "j1 = j" by (simp add: resolveRef_no_ref)
    with ih1 ih2 None show ?thesis by (auto simp add: inlinedRefsOf_def)
  next
    case (Some t)
    show ?thesis
    proof (cases "isSubPointer t (snd vp)")
      case True
      with s Some have "jsf_schema j1 = jsf_schema j"
        by (auto simp add: resolveRef_circular_step cacheReference_frame)
      with ih1 ih2 Some True show ?thesis by (auto simp add: inlinedRefsOf_def)
    next
      case False
      from resolveRef_inline_step [OF Some False s] obtain kvs template where
        v: "fst vp = JObj kvs" and
        e: "map_of (schemaRefLibrary (cacheReference U t j)) t = Some (JObj template)" and
        j1: "j1 = (cacheReference U t j)\<lparr>jsf_schema :=
               JsonPointer_set U (jsf_schema j) (PStr (snd vp))
                 (JObj (assign_keys template (AList.delete ''$ref'' kvs)))\<rparr>"
        by blast
      let ?m = "JObj (assign_keys template (AList.delete ''$ref'' kvs))"
      from e j1 have "map_of (schemaRefLibrary j1) t = Some (JObj template)" by simp
      from run_steps_keeps_library [OF r this]
      have "inlining_of (schemaRefLibrary j') (fst vp, snd vp, t) ?m"
        by (simp add: inlining_of_def v)
      moreover have "inlinedRefsOf U (vp # vs) = (fst vp, snd vp, t) # inlinedRefsOf U vs"
        using Some False by (simp add: inlinedRefsOf_def)
      moreover have "jsf_schema j1 = JsonPointer_set U (jsf_schema j) (PStr (snd vp)) ?m"
        using j1 by simp
      ultimately have
        "list_all2 (inlining_of (schemaRefLibrary j')) (inlinedRefsOf U (vp # vs)) (?m # ms) \<and>
         jsf_schema j' =
           writeAll U (zip (map (\<lambda>r. fst (snd r)) (inlinedRefsOf U (vp # vs))) (?m # ms))
             (jsf_schema j)"
        using ih1 ih2 by (simp add: writeAll_def)
      then show ?thesis by blast
    qed
  qed
qed

lemma resolveSchema_run:
  assumes "spec_traversal U" and "\<not> isEmpty (jsf_schema (jsf c))" and "resolveSchema U c = Inr c'"
  shows "\<exists>j'. run_steps (resolveRef U) (visit_all [] (jsf_schema (jsf (prepareSchema U c))))
                (jsf (prepareSchema U c)) = Inr j' \<and> c' = (prepareSchema U c)\<lparr>jsf := j'\<rparr>"
  using assms
  by (auto simp add: resolveSchema_def Let_def spec_traversal_def dest!: then_do_Inr)

lemma prepareSchema_circular_map:
  "schemaCircularRefMap (jsf (prepareSchema U c)) = schemaCircularRefMap (jsf c)"
  by (simp add: prepareSchema_def compileSchema_def normalizeSchema_def Let_def)

lemma map_of_recordAll:
  "map_of (recordAll ps m) p = (case map_of (rev ps) p of Some t \<Rightarrow> Some t | None \<Rightarrow> map_of m p)"
proof (induction ps arbitrary: m)
  case Nil
  then show ?case by (simp add: recordAll_def)
next
  case (Cons x ps)
  have "recordAll (x # ps) m = recordAll ps (AList.update (fst x) (snd x) m)"
    by (simp add: recordAll_def)
  then show ?case
    by (cases x) (auto simp add: Cons.IH update_conv' map_add_def split: option.splits)
qed

lemma circularRefsOf_iff:
  "(p, t) \<in> set (circularRefsOf U nodes) \<longleftrightarrow>
     (\<exists>v. (v, p) \<in> set nodes \<and> refTarget U v = Some t \<and> isSubPointer t p)"
  by (induction nodes) (auto simp add: circularRefsOf_def split: option.splits if_splits)

lemma inlinedRefsOf_iff:
  "(v, p, t) \<in> set (inlinedRefsOf U nodes) \<longleftrightarrow>
     ((v, p) \<in> set nodes \<and> refTarget U v = Some t \<and> \<not> isSubPointer t p)"
  by (induction nodes) (auto simp add: inlinedRefsOf_def split: option.splits if_splits)


text \<open>The sample utilities traverse as the spec says; the resolution of the example schema.\<close>

lemma spec_traversal_sample: "spec_traversal sample_utils"
  by (simp add: spec_traversal_def sample_utils_def)

lemma nested_facts:
  "\<not> isEmpty (jsf_schema (jsf nested_input))"
  "\<not> isl nested_run"
  "jsf_schema (jsf (prepareSchema sample_utils nested_input)) = nested_schema"
  "schemaCircularRefMap (jsf nested_input) = []"
  "circularRefsOf sample_utils (visit_all [] nested_schema) =
     [(''/properties/tree/properties/child'', ''/properties/tree''),
      (''/properties/self'', ''/properties/self'')]"
  "inlinedRefsOf sample_utils (visit_all [] nested_schema) =
     [(JObj [(''$ref'', JStr ''#/properties/leaf''), (''type'', JStr ''integer''),
             (''title'', JStr ''L'')],
       ''/properties/leafy'', ''/properties/leaf'')]"
  "jsf_schema (jsf (projr nested_run)) = nested_resolved"
  "schemaRefLibrary (jsf (projr nested_run)) =
     [(''/properties/tree'',
       JObj [(''type'', JStr ''object''),
             (''properties'', JObj [(''child'', JObj [(''$ref'', JStr ''#/properties/tree'')])])]),
      (''/properties/self'', JObj [(''$ref'', JStr ''#/properties/self'')]),
      (''/properties/leaf'', JObj [(''type'', JStr ''number''), (''minimum'', JNum 0)])]"
  by code_simp+

text \<open>
  Claim C1. Assume that \<^verbatim>\<open>forEachDeep\<close> traverses as the spec says, and let the
  resolution of a non-empty schema return. Take the nodes of the schema as the traversal
  finds it, after the conversion of line 212. A node with a reference is circular
  exactly when the target is a sub-pointer of the node's pointer: it is then among the
  circular pairs and not among the inlined nodes, and otherwise among the inlined nodes
  and not among the circular pairs. The circular reference map after the resolution is
  the map before it with the circular pairs recorded in the order of the visit: every
  pointer of a circular reference is mapped to a target recorded for it, and the entry
  of any other pointer is as it was. The schema after the resolution is the schema that
  the traversal started from with one write for each inlined node, at that node's
  pointer, and no other write: a node with a circular reference is not among the nodes
  that are written.
\<close>

theorem resolveSchema_circular:
  fixes U :: utils and c :: component
  assumes "spec_traversal U" and "\<not> isEmpty (jsf_schema (jsf c))" and "resolveSchema U c = Inr c'"
  defines "start \<equiv> jsf_schema (jsf (prepareSchema U c))"
  defines "circular \<equiv> circularRefsOf U (visit_all [] start)"
  defines "inlined \<equiv> inlinedRefsOf U (visit_all [] start)"
  shows "(\<forall>v p t. (v, p) \<in> set (visit_all [] start) \<and> refTarget U v = Some t \<longrightarrow>
             (isSubPointer t p \<longrightarrow> (p, t) \<in> set circular \<and> (v, p, t) \<notin> set inlined) \<and>
             (\<not> isSubPointer t p \<longrightarrow> (v, p, t) \<in> set inlined \<and> (p, t) \<notin> set circular))
       \<and> schemaCircularRefMap (jsf c') = recordAll circular (schemaCircularRefMap (jsf c))
       \<and> (\<forall>p t. (p, t) \<in> set circular \<longrightarrow>
             (\<exists>t'. (p, t') \<in> set circular \<and> map_of (schemaCircularRefMap (jsf c')) p = Some t'))
       \<and> (\<forall>p. p \<notin> fst ` set circular \<longrightarrow>
             map_of (schemaCircularRefMap (jsf c')) p = map_of (schemaCircularRefMap (jsf c)) p)
       \<and> (\<exists>ms. length ms = length inlined \<and>
               jsf_schema (jsf c') = writeAll U (zip (map (\<lambda>r. fst (snd r)) inlined) ms) start)"
proof -
  from resolveSchema_run [OF assms(1-3)] obtain j' where
    r: "run_steps (resolveRef U) (visit_all [] start) (jsf (prepareSchema U c)) = Inr j'"
    and c': "c' = (prepareSchema U c)\<lparr>jsf := j'\<rparr>"
    unfolding start_def by blast
  from run_steps_circular_map [OF r] c' have m:
    "schemaCircularRefMap (jsf c') = recordAll circular (schemaCircularRefMap (jsf c))"
    by (simp add: prepareSchema_circular_map circular_def)
  have a: "\<exists>t'. (p, t') \<in> set circular \<and> map_of (schemaCircularRefMap (jsf c')) p = Some t'"
    if "(p, t) \<in> set circular" for p t
  proof -
    from that have "(p, t) \<in> set (rev circular)" by simp
    then obtain t' where "map_of (rev circular) p = Some t'"
      by (blast dest: weak_map_of_SomeI)
    moreover from this have "(p, t') \<in> set circular"
      by (auto dest: map_of_SomeD)
    ultimately show ?thesis by (auto simp add: m map_of_recordAll)
  qed
  have b: "map_of (schemaCircularRefMap (jsf c')) p = map_of (schemaCircularRefMap (jsf c)) p"
    if "p \<notin> fst ` set circular" for p
  proof -
    from that have "map_of (rev circular) p = None"
      by (simp add: map_of_eq_None_iff)
    then show ?thesis by (simp add: m map_of_recordAll)
  qed
  from run_steps_inlined [OF r] obtain ms where
    "list_all2 (inlining_of (schemaRefLibrary j')) inlined ms"
    and "jsf_schema j' = writeAll U (zip (map (\<lambda>r. fst (snd r)) inlined) ms) start"
    unfolding start_def inlined_def by blast
  then have "length ms = length inlined \<and>
      jsf_schema (jsf c') = writeAll U (zip (map (\<lambda>r. fst (snd r)) inlined) ms) start"
    using c' by (simp add: list_all2_lengthD)
  then have w: "\<exists>ms. length ms = length inlined \<and>
      jsf_schema (jsf c') = writeAll U (zip (map (\<lambda>r. fst (snd r)) inlined) ms) start"
    by blast
  have k: "(isSubPointer t p \<longrightarrow> (p, t) \<in> set circular \<and> (v, p, t) \<notin> set inlined) \<and>
           (\<not> isSubPointer t p \<longrightarrow> (v, p, t) \<in> set inlined \<and> (p, t) \<notin> set circular)"
    if "(v, p) \<in> set (visit_all [] start)" and "refTarget U v = Some t" for v p t
    using that unfolding circular_def inlined_def circularRefsOf_iff inlinedRefsOf_iff by blast
  from k m a b w show ?thesis by blast
qed

theorem resolveSchema_circular_witness:
  "spec_traversal sample_utils \<and> \<not> isEmpty (jsf_schema (jsf nested_input)) \<and>
   \<not> isl nested_run \<and>
   isSubPointer ''/properties/tree'' ''/properties/tree/properties/child'' \<and>
   isSubPointer ''/properties/self'' ''/properties/self'' \<and>
   \<not> isSubPointer ''/properties/leaf'' ''/properties/leafy'' \<and>
   schemaCircularRefMap (jsf (projr nested_run)) =
     [(''/properties/tree/properties/child'', ''/properties/tree''),
      (''/properties/self'', ''/properties/self'')] \<and>
   map_of (schemaCircularRefMap (jsf (projr nested_run))) ''/properties/leafy'' = None \<and>
   jsf_schema (jsf (projr nested_run)) = nested_resolved \<and>
   path_get (jsf_schema (jsf (projr nested_run))) [''properties'', ''tree'', ''properties'', ''child''] =
     Some (JObj [(''$ref'', JStr ''#/properties/tree'')]) \<and>
   path_get (jsf_schema (jsf (projr nested_run))) [''properties'', ''self''] =
     Some (JObj [(''$ref'', JStr ''#/properties/self'')]) \<and>
   (\<exists>ms. length ms = 1 \<and>
         nested_resolved = writeAll sample_utils (zip [''/properties/leafy''] ms) nested_schema)"
proof -
  have run: "resolveSchema sample_utils nested_input = Inr (projr nested_run)"
    using nested_facts(2) by (simp add: nested_run_def)
  have s: "isSubPointer ''/properties/tree'' ''/properties/tree/properties/child''"
    "isSubPointer ''/properties/self'' ''/properties/self''"
    "\<not> isSubPointer ''/properties/leaf'' ''/properties/leafy''"
    by (simp_all add: isSubPointer_def)
  have g: "path_get nested_resolved [''properties'', ''tree'', ''properties'', ''child''] =
     Some (JObj [(''$ref'', JStr ''#/properties/tree'')])"
    "path_get nested_resolved [''properties'', ''self''] =
     Some (JObj [(''$ref'', JStr ''#/properties/self'')])"
    by code_simp+
  show ?thesis
    using resolveSchema_circular [OF spec_traversal_sample nested_facts(1) run]
    by (simp add: spec_traversal_sample nested_facts s g recordAll_def)
qed




subsection \<open>Importing an alternate layout\<close>

text \<open>
  One call of the callback of lines 292-315, and a traversal with a callback that never
  throws.
\<close>

lemma importHint_cases:
  fixes U :: utils and pointer :: string
  defines "schemaPointer \<equiv> toSchemaPointer pointer"
  defines "groupPointer \<equiv> slice_0_minus2 (JsonPointer_parse U schemaPointer)"
  defines "key \<equiv> JsonPointer_toKey U schemaPointer"
  defines "itemPointer \<equiv> hintItemPointer U schemaPointer"
  shows "hasValue v \<and> pointer \<noteq> [] \<and> JsonPointer_has U (jsf_schema j) (PArr groupPointer) \<and>
          \<not> JsonPointer_has U (jsf_schema j) itemPointer \<longrightarrow>
            importHint U v pointer j =
              j\<lparr>jsf_schema := JsonPointer_set U (jsf_schema j) itemPointer v\<rparr>"
    and "JsonPointer_has U (jsf_schema j) itemPointer \<longrightarrow> importHint U v pointer j = j"
    and "\<not> JsonPointer_has U (jsf_schema j) (PArr groupPointer) \<longrightarrow> importHint U v pointer j = j"
    and "key = ''ui:order'' \<longrightarrow> itemPointer = PStr schemaPointer"
    and "key \<noteq> ''ui:order'' \<and> take 3 key = ''ui:'' \<longrightarrow>
            itemPointer = PArr (groupPointer @ [''x-schema-form'', drop 3 key])"
    and "take 3 key \<noteq> ''ui:'' \<longrightarrow>
            itemPointer = PArr (groupPointer @ [''x-schema-form'', key])"
  unfolding schemaPointer_def groupPointer_def key_def itemPointer_def
  by (auto simp add: importHint_def hintItemPointer_def hintKey_def Let_def)

lemma run_steps_total:
  "run_steps (\<lambda>v p j. Inr (f v p j)) vs j = Inr (fold (\<lambda>vp. f (fst vp) (snd vp)) vs j)"
  by (induction vs arbitrary: j) (simp_all add: then_do_def)

text \<open>
  Claim C9. Assume that \<^verbatim>\<open>forEachDeep\<close> traverses as the spec says. The alternate layout
  is \<^verbatim>\<open>UISchema\<close> if that is an object, else \<^verbatim>\<open>form.UISchema\<close> if the form has that
  key, else \<^verbatim>\<open>form.customFormItems\<close>, as \<^verbatim>\<open>fixJsonFormOptions\<close> leaves it, if the form
  has that key, else none; selecting it leaves the schema as it is. When the alternate
  layout is truthy, the section returns the service on which the callback has been run
  on every value of the alternate layout, a value before the values inside it, each with
  its pointer; when it is not, nothing is imported. A call of the callback copies the value into the
  schema under these conditions: the value is present, the pointer is not the root, the
  schema has the group pointer, and the schema has nothing yet at the item pointer. If
  the schema has a value at the item pointer, or lacks the group, the call leaves the
  service unchanged. The item pointer is the translated pointer itself when its last key
  is \<^verbatim>\<open>ui:order\<close>; otherwise it is the group pointer followed by \<^verbatim>\<open>x-schema-form\<close> and
  the key, without its \<^verbatim>\<open>ui:\<close> prefix if it has one.
\<close>

theorem importAlternateLayout_copies_hints:
  fixes U :: utils and c :: component and pointer :: string
  assumes "spec_traversal U"
  defines "c1 \<equiv> fst (selectAlternateLayout U c)"
  defines "alternateLayout \<equiv> snd (selectAlternateLayout U c)"
  defines "schemaPointer \<equiv> toSchemaPointer pointer"
  defines "groupPointer \<equiv> slice_0_minus2 (JsonPointer_parse U schemaPointer)"
  defines "key \<equiv> JsonPointer_toKey U schemaPointer"
  defines "itemPointer \<equiv> hintItemPointer U schemaPointer"
  shows "(truthy alternateLayout \<longrightarrow>
            importAlternateLayout U c =
              Inr (c1\<lparr>jsf := fold (\<lambda>vp. importHint U (fst vp) (snd vp))
                               (visit_all [] alternateLayout) (jsf c1)\<rparr>))
       \<and> (\<not> truthy alternateLayout \<longrightarrow> importAlternateLayout U c = Inr c1)
       \<and> jsf_schema (jsf c1) = jsf_schema (jsf c)
       \<and> (isObject (UISchema c) \<longrightarrow> alternateLayout = UISchema c)
       \<and> (\<not> isObject (UISchema c) \<and> hasOwn (form c) ''UISchema'' \<longrightarrow>
            alternateLayout = js_get (form c) ''UISchema'')
       \<and> (\<not> isObject (UISchema c) \<and> \<not> hasOwn (form c) ''UISchema'' \<and>
          hasOwn (form c) ''customFormItems'' \<longrightarrow>
            alternateLayout = fixJsonFormOptions U (js_get (form c) ''customFormItems''))
       \<and> (\<not> isObject (UISchema c) \<and> \<not> hasOwn (form c) ''UISchema'' \<and>
          \<not> hasOwn (form c) ''customFormItems'' \<longrightarrow> alternateLayout = JNull)
       \<and> (hasValue v \<and> pointer \<noteq> [] \<and> JsonPointer_has U (jsf_schema j) (PArr groupPointer) \<and>
          \<not> JsonPointer_has U (jsf_schema j) itemPointer \<longrightarrow>
            importHint U v pointer j =
              j\<lparr>jsf_schema := JsonPointer_set U (jsf_schema j) itemPointer v\<rparr>)
       \<and> (JsonPointer_has U (jsf_schema j) itemPointer \<longrightarrow> importHint U v pointer j = j)
       \<and> (\<not> JsonPointer_has U (jsf_schema j) (PArr groupPointer) \<longrightarrow> importHint U v pointer j = j)
       \<and> (key = ''ui:order'' \<longrightarrow> itemPointer = PStr schemaPointer)
       \<and> (key \<noteq> ''ui:order'' \<and> take 3 key = ''ui:'' \<longrightarrow>
            itemPointer = PArr (groupPointer @ [''x-schema-form'', drop 3 key]))
       \<and> (take 3 key \<noteq> ''ui:'' \<longrightarrow>
            itemPointer = PArr (groupPointer @ [''x-schema-form'', key]))"
proof -
  have run: "truthy alternateLayout \<longrightarrow>
      importAlternateLayout U c =
        Inr (c1\<lparr>jsf := fold (\<lambda>vp. importHint U (fst vp) (snd vp))
                         (visit_all [] alternateLayout) (jsf c1)\<rparr>)"
    using assms(1)
    by (cases "selectAlternateLayout U c")
      (simp add: importAlternateLayout_def c1_def alternateLayout_def spec_traversal_def
          run_steps_total then_do_def)
  have none: "\<not> truthy alternateLayout \<longrightarrow> importAlternateLayout U c = Inr c1"
    by (cases "selectAlternateLayout U c")
      (simp add: importAlternateLayout_def c1_def alternateLayout_def)
  have svc: "jsf_schema (jsf c1) = jsf_schema (jsf c)"
    by (simp add: c1_def selectAlternateLayout_def Let_def)
  have sel: "isObject (UISchema c) \<longrightarrow> alternateLayout = UISchema c"
    "\<not> isObject (UISchema c) \<and> hasOwn (form c) ''UISchema'' \<longrightarrow>
            alternateLayout = js_get (form c) ''UISchema''"
    "\<not> isObject (UISchema c) \<and> \<not> hasOwn (form c) ''UISchema'' \<and>
          hasOwn (form c) ''customFormItems'' \<longrightarrow>
            alternateLayout = fixJsonFormOptions U (js_get (form c) ''customFormItems'')"
    "\<not> isObject (UISchema c) \<and> \<not> hasOwn (form c) ''UISchema'' \<and>
          \<not> hasOwn (form c) ''customFormItems'' \<longrightarrow> alternateLayout = JNull"
    by (auto simp add: alternateLayout_def selectAlternateLayout_def Let_def js_get_put_same
          dest: hasOwn_isObject)
  note call = importHint_cases
  show ?thesis
    unfolding schemaPointer_def groupPointer_def key_def itemPointer_def
    by (intro conjI) (rule run none svc sel call)+
qed

theorem importAlternateLayout_copies_hints_witness:
  "spec_traversal sample_utils \<and>
   isObject (UISchema hints_input) \<and> truthy (UISchema hints_input) \<and>
   visit_all [] hints_document =
     [(hints_document, ''''),
      (JObj [(''ui:widget'', JStr ''updown'')], ''/age''),
      (JStr ''updown'', ''/age/ui:widget''),
      (JObj [(''ui:widget'', JStr ''textarea'')], ''/name''),
      (JStr ''textarea'', ''/name/ui:widget'')] \<and>
   \<not> isl (importAlternateLayout sample_utils hints_input) \<and>
   jsf_schema (jsf hints_input) \<noteq> hinted_result \<and>
   jsf_schema (jsf (projr (importAlternateLayout sample_utils hints_input))) = hinted_result \<and>
   \<not> isObject (UISchema form_hints_input) \<and> hasOwn (form form_hints_input) ''UISchema'' \<and>
   jsf_schema (jsf (projr (importAlternateLayout sample_utils form_hints_input))) = hinted_result \<and>
   \<not> hasOwn (form custom_items_input) ''UISchema'' \<and>
   hasOwn (form custom_items_input) ''customFormItems'' \<and>
   jsf_schema (jsf (projr (importAlternateLayout sample_utils custom_items_input))) = hinted_result \<and>
   hintItemPointer sample_utils (toSchemaPointer ''/age/ui:widget'') =
     PArr [''properties'', ''age'', ''x-schema-form'', ''widget''] \<and>
   JsonPointer_has sample_utils (jsf_schema hinted_service) (PArr [''properties'', ''age'']) \<and>
   \<not> JsonPointer_has sample_utils (jsf_schema hinted_service)
       (PArr [''properties'', ''age'', ''x-schema-form'', ''widget'']) \<and>
   importHint sample_utils (JStr ''updown'') ''/age/ui:widget'' hinted_service =
     hinted_service\<lparr>jsf_schema :=
       JsonPointer_set sample_utils (jsf_schema hinted_service)
         (PArr [''properties'', ''age'', ''x-schema-form'', ''widget'']) (JStr ''updown'')\<rparr> \<and>
   JsonPointer_has sample_utils (jsf_schema hinted_service)
     (hintItemPointer sample_utils (toSchemaPointer ''/name/ui:widget'')) \<and>
   importHint sample_utils (JStr ''textarea'') ''/name/ui:widget'' hinted_service = hinted_service \<and>
   \<not> JsonPointer_has sample_utils (jsf_schema hinted_service) (PArr [''properties'', ''zip'']) \<and>
   importHint sample_utils (JStr ''textarea'') ''/zip/ui:widget'' hinted_service = hinted_service \<and>
   JsonPointer_toKey sample_utils (toSchemaPointer ''/ui:order'') = ''ui:order'' \<and>
   hintItemPointer sample_utils (toSchemaPointer ''/ui:order'') = PStr ''/properties/ui:order'' \<and>
   JsonPointer_toKey sample_utils (toSchemaPointer ''/age/placeholder'') = ''placeholder'' \<and>
   hintItemPointer sample_utils (toSchemaPointer ''/age/placeholder'') =
     PArr [''properties'', ''age'', ''x-schema-form'', ''placeholder'']"
proof -
  have p: "toSchemaPointer ''/age/ui:widget'' = ''/properties/age/properties/ui:widget''"
    "toSchemaPointer ''/name/ui:widget'' = ''/properties/name/properties/ui:widget''"
    "toSchemaPointer ''/zip/ui:widget'' = ''/properties/zip/properties/ui:widget''"
    "toSchemaPointer ''/ui:order'' = ''/properties/ui:order''"
    "toSchemaPointer ''/age/placeholder'' = ''/properties/age/properties/placeholder''"
    by code_simp+
  have k: "JsonPointer_toKey sample_utils ''/properties/age/properties/ui:widget'' = ''ui:widget''"
    "JsonPointer_toKey sample_utils ''/properties/name/properties/ui:widget'' = ''ui:widget''"
    "JsonPointer_toKey sample_utils ''/properties/ui:order'' = ''ui:order''"
    "JsonPointer_toKey sample_utils ''/properties/age/properties/placeholder'' = ''placeholder''"
    by code_simp+
  have g: "slice_0_minus2 (JsonPointer_parse sample_utils ''/properties/age/properties/ui:widget'')
             = [''properties'', ''age'']"
    "slice_0_minus2 (JsonPointer_parse sample_utils ''/properties/name/properties/ui:widget'')
             = [''properties'', ''name'']"
    "slice_0_minus2 (JsonPointer_parse sample_utils ''/properties/zip/properties/ui:widget'')
             = [''properties'', ''zip'']"
    "slice_0_minus2 (JsonPointer_parse sample_utils ''/properties/age/properties/placeholder'')
             = [''properties'', ''age'']"
    by code_simp+
  have h: "JsonPointer_has sample_utils (jsf_schema hinted_service) (PArr [''properties'', ''age''])"
    "\<not> JsonPointer_has sample_utils (jsf_schema hinted_service)
        (PArr [''properties'', ''age'', ''x-schema-form'', ''widget''])"
    "JsonPointer_has sample_utils (jsf_schema hinted_service)
        (PArr [''properties'', ''name'', ''x-schema-form'', ''widget''])"
    "\<not> JsonPointer_has sample_utils (jsf_schema hinted_service) (PArr [''properties'', ''zip''])"
    by code_simp+
  have d: "isObject (UISchema hints_input)" "truthy (UISchema hints_input)"
    "\<not> isObject (UISchema form_hints_input)" "hasOwn (form form_hints_input) ''UISchema''"
    "truthy (js_get (form form_hints_input) ''UISchema'')"
    "\<not> isObject (UISchema custom_items_input)"
    "\<not> hasOwn (form custom_items_input) ''UISchema''"
    "hasOwn (form custom_items_input) ''customFormItems''"
    "truthy (fixJsonFormOptions sample_utils (js_get (form custom_items_input) ''customFormItems''))"
    "jsf_schema (jsf hints_input) \<noteq> hinted_result"
    by code_simp+
  have v: "visit_all [] hints_document =
     [(hints_document, ''''),
      (JObj [(''ui:widget'', JStr ''updown'')], ''/age''),
      (JStr ''updown'', ''/age/ui:widget''),
      (JObj [(''ui:widget'', JStr ''textarea'')], ''/name''),
      (JStr ''textarea'', ''/name/ui:widget'')]"
    by code_simp
  have f: "jsf_schema (fold (\<lambda>vp. importHint sample_utils (fst vp) (snd vp))
             (visit_all [] (UISchema hints_input))
             (jsf (fst (selectAlternateLayout sample_utils hints_input)))) = hinted_result"
    "jsf_schema (fold (\<lambda>vp. importHint sample_utils (fst vp) (snd vp))
             (visit_all [] (js_get (form form_hints_input) ''UISchema''))
             (jsf (fst (selectAlternateLayout sample_utils form_hints_input)))) = hinted_result"
    "jsf_schema (fold (\<lambda>vp. importHint sample_utils (fst vp) (snd vp))
             (visit_all [] (fixJsonFormOptions sample_utils
                 (js_get (form custom_items_input) ''customFormItems'')))
             (jsf (fst (selectAlternateLayout sample_utils custom_items_input)))) = hinted_result"
    by code_simp+
  note t = importAlternateLayout_copies_hints [OF spec_traversal_sample]
  have r1: "\<not> isl (importAlternateLayout sample_utils hints_input)"
    "jsf_schema (jsf (projr (importAlternateLayout sample_utils hints_input))) = hinted_result"
    using t [where c = hints_input] by (simp_all add: d f)
  have r2: "jsf_schema (jsf (projr (importAlternateLayout sample_utils form_hints_input))) =
      hinted_result"
    using t [where c = form_hints_input] by (simp add: d f)
  have r3: "jsf_schema (jsf (projr (importAlternateLayout sample_utils custom_items_input))) =
      hinted_result"
    using t [where c = custom_items_input] by (simp add: d f)
  have calls: "hintItemPointer sample_utils (toSchemaPointer ''/age/ui:widget'') =
     PArr [''properties'', ''age'', ''x-schema-form'', ''widget''] \<and>
   importHint sample_utils (JStr ''updown'') ''/age/ui:widget'' hinted_service =
     hinted_service\<lparr>jsf_schema :=
       JsonPointer_set sample_utils (jsf_schema hinted_service)
         (PArr [''properties'', ''age'', ''x-schema-form'', ''widget'']) (JStr ''updown'')\<rparr> \<and>
   JsonPointer_has sample_utils (jsf_schema hinted_service)
     (hintItemPointer sample_utils (toSchemaPointer ''/name/ui:widget'')) \<and>
   importHint sample_utils (JStr ''textarea'') ''/name/ui:widget'' hinted_service = hinted_service \<and>
   importHint sample_utils (JStr ''textarea'') ''/zip/ui:widget'' hinted_service = hinted_service \<and>
   JsonPointer_toKey sample_utils (toSchemaPointer ''/ui:order'') = ''ui:order'' \<and>
   hintItemPointer sample_utils (toSchemaPointer ''/ui:order'') = PStr ''/properties/ui:order'' \<and>
   JsonPointer_toKey sample_utils (toSchemaPointer ''/age/placeholder'') = ''placeholder'' \<and>
   hintItemPointer sample_utils (toSchemaPointer ''/age/placeholder'') =
     PArr [''properties'', ''age'', ''x-schema-form'', ''placeholder'']"
    using t [where c = hints_input and v = "JStr ''updown''" and pointer = "''/age/ui:widget''"
               and j = hinted_service]
      t [where c = hints_input and v = "JStr ''textarea''" and pointer = "''/name/ui:widget''"
               and j = hinted_service]
      t [where c = hints_input and v = "JStr ''textarea''" and pointer = "''/zip/ui:widget''"
               and j = hinted_service]
      t [where c = hints_input and v = "JNull" and pointer = "''/ui:order''"
               and j = hinted_service]
      t [where c = hints_input and v = "JNull" and pointer = "''/age/placeholder''"
               and j = hinted_service]
    by (simp add: p k g h)
  from calls d v r1 r2 r3 h spec_traversal_sample show ?thesis
    by (simp only: simp_thms)
qed

subsection \<open>The validator\<close>

lemma normalizeSchema_schema_cong:
  "jsf_schema j = jsf_schema j' \<Longrightarrow> jsf_schema (normalizeSchema j) = jsf_schema (normalizeSchema j')"
  by (simp add: normalizeSchema_def Let_def)

lemma initOptions_validator:
  "validateFormData (initOptions U c) = validateFormData c"
  "ajv_compiled (initOptions U c) = ajv_compiled c"
  "jsf_schema (jsf (initOptions U c)) = jsf_schema (jsf c)"
  by (simp_all add: initOptions_def Let_def)

lemma resetEngine_validator:
  "validateFormData (resetEngine c) = validateFormData c"
  "ajv_compiled (resetEngine c) = ajv_compiled c"
  by (simp_all add: resetEngine_def)

lemma initSchema_validator:
  "validateFormData (initSchema c) = validateFormData c"
  "ajv_compiled (initSchema c) = ajv_compiled c"
  by (simp_all add: initSchema_def)

lemma initSchema_schema_cong:
  assumes "jsf_schema (jsf c) = jsf_schema (jsf d)" "schema c = schema d" "form c = form d"
    "JSONSchema c = JSONSchema d"
  shows "jsf_schema (jsf (initSchema c)) = jsf_schema (jsf (initSchema d))"
  using assms by (simp add: initSchema_def)

lemma canonical_after_options:
  "jsf_schema (jsf (initSchema (initOptions U (resetEngine c)))) = canonicalSchema c"
  unfolding canonicalSchema_def
  by (rule initSchema_schema_cong) (simp_all add: initOptions_def Let_def resetEngine_def)

lemma initLayout_validator:
  "validateFormData (initLayout U c) = validateFormData c"
  "ajv_compiled (initLayout U c) = ajv_compiled c"
  by (simp_all add: initLayout_def Let_def)

lemma selectAlternateLayout_validator:
  "validateFormData (fst (selectAlternateLayout U c)) = validateFormData c"
  "ajv_compiled (fst (selectAlternateLayout U c)) = ajv_compiled c"
  by (simp_all add: selectAlternateLayout_def Let_def)

lemma importAlternateLayout_validator:
  assumes "importAlternateLayout U c = Inr c'"
  shows "validateFormData c' = validateFormData c \<and> ajv_compiled c' = ajv_compiled c"
proof -
  obtain c1 alt where sel: "selectAlternateLayout U c = (c1, alt)"
    by (cases "selectAlternateLayout U c")
  have c1: "validateFormData c1 = validateFormData c" "ajv_compiled c1 = ajv_compiled c"
    using selectAlternateLayout_validator [of U c] by (simp_all add: sel)
  show ?thesis
  proof (cases "truthy alt")
    case True
    with assms sel obtain j where "c' = c1\<lparr>jsf := j\<rparr>"
      by (auto simp add: importAlternateLayout_def dest!: then_do_Inr)
    with c1 show ?thesis by simp
  next
    case False
    with assms sel have "c' = c1"
      by (simp add: importAlternateLayout_def)
    with c1 show ?thesis by simp
  qed
qed

lemma initValues_validator:
  "validateFormData (initValues c) = validateFormData c"
  "ajv_compiled (initValues c) = ajv_compiled c"
  by (simp_all add: initValues_def)

lemma buildForm_validator:
  assumes "validateFormData c \<noteq> None"
  shows "validateFormData (buildForm U c) = validateFormData c"
    and "ajv_compiled (buildForm U c) = ajv_compiled c"
  using assms by (auto simp add: buildForm_def Let_def split: prod.splits)

lemma emitValidation_validator:
  assumes "emitValidation U c d = Inr c'"
  shows "validateFormData c' = validateFormData c \<and> ajv_compiled c' = ajv_compiled c"
  using assms
  by (auto simp add: emitValidation_def split: option.splits validator.splits prod.splits)

lemma activateForm_validator:
  assumes "activateForm U c = Inr c'"
  shows "validateFormData c' = validateFormData c \<and> ajv_compiled c' = ajv_compiled c"
proof (cases "truthy (formGroup (jsf c))")
  case False
  with assms show ?thesis by (simp add: activateForm_def)
next
  case True
  show ?thesis
  proof (cases "truthy (js_get (globalOptions (jsf c)) ''validateOnRender'')")
    case False
    with True assms show ?thesis by (auto simp add: activateForm_def Let_def)
  next
    case v: True
    with True assms show ?thesis
      by (auto simp add: activateForm_def Let_def dest!: emitValidation_validator)
  qed
qed

lemma finishForm_validator:
  assumes "finishForm U c = Inr c'" and "validateFormData c \<noteq> None"
  shows "validateFormData c' = validateFormData c \<and> ajv_compiled c' = ajv_compiled c"
proof -
  from assms(1) obtain j where j: "activateForm U (buildForm U (c\<lparr>jsf := j\<rparr>)) = Inr c'"
    unfolding finishForm_def by (blast dest: then_do_Inr)
  have "validateFormData (c\<lparr>jsf := j\<rparr>) \<noteq> None"
    using assms(2) by simp
  then have "validateFormData (buildForm U (c\<lparr>jsf := j\<rparr>)) = validateFormData c"
    and "ajv_compiled (buildForm U (c\<lparr>jsf := j\<rparr>)) = ajv_compiled c"
    by (simp_all add: buildForm_validator)
  with activateForm_validator [OF j] show ?thesis by simp
qed

lemma resolveSchema_validator:
  assumes "resolveSchema U c = Inr c'" and "\<not> isEmpty (jsf_schema (jsf c))"
  shows "validateFormData c' =
           Some (Validator (convertJsonSchema3to4 U (jsf_schema (normalizeSchema (jsf c))))) \<and>
         ajv_compiled c' =
           ajv_compiled c @ [convertJsonSchema3to4 U (jsf_schema (normalizeSchema (jsf c)))]"
proof -
  from assms obtain j where "c' = (prepareSchema U c)\<lparr>jsf := j\<rparr>"
    by (auto simp add: resolveSchema_def Let_def dest!: then_do_Inr)
  then show ?thesis
    by (simp add: prepareSchema_def compileSchema_def Let_def)
qed

lemma canonicalSchema_present:
  assumes "\<not> isEmpty (canonicalSchema c)"
  shows "inputs_present c"
proof (rule ccontr)
  assume "\<not> inputs_present c"
  then have "\<not> truthy (schema c)" "\<not> truthy (form c)" "\<not> truthy (JSONSchema c)"
    by (simp_all add: inputs_present_def)
  then have "\<not> isObject (schema c)" "\<not> isObject (JSONSchema c)" "\<not> hasOwn (form c) k" for k
    by (cases "schema c"; cases "JSONSchema c"; cases "form c"; simp)+
  then have "canonicalSchema c = JObj []"
    by (simp add: canonicalSchema_def initSchema_def resetEngine_def)
  with assms show False by simp
qed

text \<open>The subscriber of the value changes validates with the validator that the component holds.\<close>

lemma valueChanged_uses_validator:
  assumes "validateFormData c = Some (Validator s)"
  shows "valueChanged U v c =
           Inr (c\<lparr>emitted := emitted c @
                  [OnChanges (formattedData U (jsf c) v False),
                   IsValid (fst (ajv_validate U s (formattedData U (jsf c) v False))),
                   ValidationErrors (snd (ajv_validate U s (formattedData U (jsf c) v False)))]\<rparr>)"
  using assms
  by (simp add: valueChanged_def emitValidation_def Let_def split: prod.splits)

text \<open>
  Claim C5, as amended. When the canonical schema is not empty and \<^verbatim>\<open>initializeForm\<close>
  returns normally, \<^verbatim>\<open>ajv.compile\<close> has been called exactly once in that
  initialization, on the schema as it stands at line 215: after the shorthand and the
  conversion from version 3, and before any reference is resolved or any hint is
  imported. The validator that the component keeps for validating later changes is the
  one compiled then.
\<close>

theorem validator_compiled_before_resolution:
  assumes "\<not> isEmpty (canonicalSchema c)" and "initializeForm U c = Inr c'"
  shows "validateFormData c' = Some (Validator (compiledSchema U c)) \<and>
         ajv_compiled c' = ajv_compiled c @ [compiledSchema U c]"
proof -
  let ?c0 = "initSchema (initOptions U (resetEngine c))"
  have "inputs_present c"
    using assms(1) by (rule canonicalSchema_present)
  with assms(2) have
    "then_do (resolveSchema U ?c0)
       (\<lambda>c1. then_do (importAlternateLayout U (initLayout U c1))
          (\<lambda>c2. finishForm U (initValues c2))) = Inr c'"
    by (simp add: initializeForm_def)
  then obtain c1 where r: "resolveSchema U ?c0 = Inr c1"
    and "then_do (importAlternateLayout U (initLayout U c1))
          (\<lambda>c2. finishForm U (initValues c2)) = Inr c'"
    by (blast dest: then_do_Inr)
  then obtain c2 where a: "importAlternateLayout U (initLayout U c1) = Inr c2"
    and f: "finishForm U (initValues c2) = Inr c'"
    by (blast dest: then_do_Inr)
  have ne: "\<not> isEmpty (jsf_schema (jsf ?c0))"
    using assms(1) by (simp add: canonical_after_options)
  have "jsf_schema (normalizeSchema (jsf ?c0)) =
        jsf_schema (normalizeSchema (jsf (initSchema (resetEngine c))))"
    by (rule normalizeSchema_schema_cong)
       (simp only: canonical_after_options canonicalSchema_def)
  then have s: "convertJsonSchema3to4 U (jsf_schema (normalizeSchema (jsf ?c0))) = compiledSchema U c"
    by (simp only: compiledSchema_def)
  have v1: "validateFormData c1 = Some (Validator (compiledSchema U c))"
    and l1: "ajv_compiled c1 = ajv_compiled c @ [compiledSchema U c]"
    using resolveSchema_validator [OF r ne]
    by (simp_all add: s initSchema_validator initOptions_validator resetEngine_validator)
  have v2: "validateFormData c2 = validateFormData c1" and l2: "ajv_compiled c2 = ajv_compiled c1"
    using importAlternateLayout_validator [OF a] by (simp_all add: initLayout_validator)
  have "validateFormData (initValues c2) \<noteq> None"
    by (simp add: initValues_validator v2 v1)
  from finishForm_validator [OF f this] show ?thesis
    by (simp add: initValues_validator v2 v1 l2 l1)
qed

theorem validator_compiled_before_resolution_witness:
  "\<not> isEmpty (canonicalSchema scenario2_input) \<and>
   \<not> isl scenario2_run \<and>
   compiledSchema sample_utils scenario2_input = scenario2_schema \<and>
   validateFormData (projr scenario2_run) = Some (Validator scenario2_schema) \<and>
   ajv_compiled (projr scenario2_run) = [scenario2_schema]"
proof -
  have h: "\<not> isEmpty (canonicalSchema scenario2_input)"
    by code_simp
  have r: "\<not> isl scenario2_run"
    by code_simp
  then have run: "initializeForm sample_utils scenario2_input = Inr (projr scenario2_run)"
    by (simp add: scenario2_run_def)
  have s: "compiledSchema sample_utils scenario2_input = scenario2_schema"
    "ajv_compiled scenario2_input = []"
    by code_simp+
  show ?thesis
    using validator_compiled_before_resolution [OF h run] h r s by simp
qed

text \<open>
  Claim C5 as stated does not hold. In scenario 2 the validator is compiled from the
  schema in which \<^verbatim>\<open>a\<close> still bears its \<^verbatim>\<open>$ref\<close>, while the schema of the service,
  after the initialization, has the reference inlined. And an initialization that ends
  without a schema, as with the wildcard layout alone, compiles nothing.
\<close>

theorem validator_not_from_resolved_schema:
  "\<not> isl scenario2_run \<and>
   validateFormData (projr scenario2_run) = Some (Validator scenario2_schema) \<and>
   ajv_compiled (projr scenario2_run) = [scenario2_schema] \<and>
   jsf_schema (jsf (projr scenario2_run)) = scenario2_resolved \<and>
   scenario2_schema \<noteq> scenario2_resolved \<and>
   \<not> isl wildcard_only_run \<and>
   ajv_compiled (projr wildcard_only_run) = [] \<and>
   validateFormData (projr wildcard_only_run) = None"
  by code_simp

subsection \<open>What a second initialization keeps\<close>

lemma resetEngine_keeps_maps:
  "schemaCircularRefMap (jsf (resetEngine c)) = schemaCircularRefMap (jsf c)"
  "dataCircularRefMap (jsf (resetEngine c)) = dataCircularRefMap (jsf c)"
  "arrayMap (jsf (resetEngine c)) = arrayMap (jsf c)"
  by (simp_all add: resetEngine_def)

text \<open>
  Whatever the utilities do: a component that is initialized again with nothing but the
  wildcard layout ends without a schema and without a form group, and its three maps
  are those of the initialization before.
\<close>

lemma reinitialize_wildcard_only_keeps_maps:
  assumes "schema c = JUndef" and "form c = JUndef" and "JSONSchema c = JUndef"
    and "UISchema c = JUndef" and "data c = JUndef" and "model c = JUndef"
    and "formData c = JUndef" and "layout c = JArr [JStr ''*'']"
  shows "\<exists>c'. initializeForm U c = Inr c' \<and>
              isEmpty (jsf_schema (jsf c')) \<and> formGroup (jsf c') = JNull \<and>
              \<not> formInitialized c' \<and> emitted c' = emitted c \<and>
              schemaCircularRefMap (jsf c') = schemaCircularRefMap (jsf c) \<and>
              dataCircularRefMap (jsf c') = dataCircularRefMap (jsf c) \<and>
              arrayMap (jsf c') = arrayMap (jsf c)"
  using assms
  by (simp add: initializeForm_def inputs_present_def resetEngine_def initOptions_def
        initSchema_def resolveSchema_def initLayout_def importAlternateLayout_def
        selectAlternateLayout_def initValues_def finishForm_def synthesizeSchema_def
        buildForm_def activateForm_def then_do_def indexOf_is_minus1_def Let_def)

text \<open>
  Claim C4 does not hold of the code. The reset of lines 136-144 leaves the
  circular-reference maps and the arrayMap as they are, and line 241 adds to the map it
  finds. A component initialized with the schema of scenario 3 records the circular
  reference of \<^verbatim>\<open>/properties/node\<close>; initialized again with the schema of scenario 1,
  which has no such node and no reference, it still holds that entry.
\<close>

theorem initializeForm_keeps_circular_map:
  "\<not> isl scenario3_run \<and>
   schemaCircularRefMap (jsf (projr scenario3_run)) = [(''/properties/node'', [])] \<and>
   \<not> isl scenario3_then_1_run \<and>
   jsf_schema (jsf (projr scenario3_then_1_run)) = scenario1_schema \<and>
   schemaCircularRefMap (jsf (projr scenario3_then_1_run)) = [(''/properties/node'', [])]"
  by code_simp

subsection \<open>The calls of the formatter\<close>

text \<open>
  In the component, neither the subscriber of the value changes nor \<^verbatim>\<open>submitForm\<close>
  writes to the service whose maps they pass to \<^verbatim>\<open>formatFormData\<close>.
\<close>

lemma submitForm_frame:
  assumes "submitForm U c = Inr c'"
  shows "jsf c' = jsf c"
  using assms by (auto simp add: submitForm_def split: if_splits)

lemma valueChanged_frame:
  assumes "valueChanged U v c = Inr c'"
  shows "jsf c' = jsf c"
  using assms
  by (auto simp add: valueChanged_def emitValidation_def Let_def
        split: option.splits validator.splits prod.splits)

end
